theory Spec2Isabelle
  imports Main "HOL-Library.Char_ord" "HOL-Library.List_Lexorder" "HOL-Library.Multiset"
    "HOL-Library.AList" "HOL-Library.Sublist"
begin

section \<open>The build pipeline of server/build.go\<close>

text \<open>
  The theory embeds the function \<^verbatim>\<open>build\<close> of \<^verbatim>\<open>server/build.go\<close> and its helpers
  \<^verbatim>\<open>yarnAdd\<close>, \<^verbatim>\<open>identify\<close> and \<^verbatim>\<open>getTypesPath\<close>. A Go string is a list of bytes
  (\<^typ>\<open>string\<close>). Every call that leaves the function (the key-value store, the file
  system, the registry client, the install tool, the module runtime, the bundler) is a
  field of the record \<open>env\<close>; the call is appended to a log of events, and the answer of
  a collaborator may depend on the whole log before the call. The helpers of the
  repository and of Go's library that \<^verbatim>\<open>build.go\<close> uses but does not define are the
  fields of the record \<open>lib\<close>. The mutex \<^verbatim>\<open>buildLock\<close> lets one call run at a time;
  the theory is about one call.
\<close>

subsection \<open>Bytes and strings of Go's library\<close>

definition dquote :: char where
  "dquote = CHR 0x22"

definition squote :: char where
  "squote = CHR 0x27"

text \<open>\<^verbatim>\<open>strings.HasPrefix\<close>.\<close>

definition strings_HasPrefix :: "string \<Rightarrow> string \<Rightarrow> bool" where
  "strings_HasPrefix s pre = (take (length pre) s = pre)"

text \<open>\<^verbatim>\<open>strings.TrimSuffix\<close>.\<close>

definition strings_TrimSuffix :: "string \<Rightarrow> string \<Rightarrow> string" where
  "strings_TrimSuffix s suf =
     (if length suf \<le> length s \<and> drop (length s - length suf) s = suf
      then take (length s - length suf) s else s)"

text \<open>\<^verbatim>\<open>strings.Split\<close> with a separator of one byte: the pieces between the separators.\<close>

fun strings_Split :: "string \<Rightarrow> char \<Rightarrow> string list" where
  "strings_Split [] sep = [[]]"
| "strings_Split (c # cs) sep =
     (if c = sep then [] # strings_Split cs sep
      else (case strings_Split cs sep of
              [] \<Rightarrow> [[c]]
            | piece # pieces \<Rightarrow> (c # piece) # pieces))"

text \<open>\<^verbatim>\<open>strings.Join\<close>.\<close>

fun strings_Join :: "string list \<Rightarrow> string \<Rightarrow> string" where
  "strings_Join [] sep = []"
| "strings_Join [x] sep = x"
| "strings_Join (x # y # ys) sep = x @ sep @ strings_Join (y # ys) sep"

text \<open>
  \<^verbatim>\<open>path.Base\<close>: the last element of a path. An empty path gives \<^verbatim>\<open>"."\<close>, trailing
  slashes are dropped first, and a path of slashes only gives \<^verbatim>\<open>"/"\<close>.
\<close>

fun strip_trailing_slashes :: "string \<Rightarrow> string" where
  "strip_trailing_slashes [] = []"
| "strip_trailing_slashes (c # cs) =
     (case strip_trailing_slashes cs of
        [] \<Rightarrow> (if c = CHR ''/'' then [] else [c])
      | r # rs \<Rightarrow> c # r # rs)"

fun after_last_slash :: "string \<Rightarrow> string" where
  "after_last_slash [] = []"
| "after_last_slash (c # cs) =
     (if CHR ''/'' \<in> set cs then after_last_slash cs
      else if c = CHR ''/'' then cs else c # cs)"

definition path_Base :: "string \<Rightarrow> string" where
  "path_Base p =
     (if p = [] then ''.''
      else (let q = after_last_slash (strip_trailing_slashes p)
            in if q = [] then ''/'' else q))"

text \<open>The verb \<^verbatim>\<open>%v\<close> of \<^verbatim>\<open>fmt\<close> on a \<^verbatim>\<open>bool\<close>.\<close>

definition fmt_bool :: "bool \<Rightarrow> string" where
  "fmt_bool b = (if b then ''true'' else ''false'')"

subsection \<open>\<^verbatim>\<open>identify\<close>\<close>

text \<open>
  \<^verbatim>\<open>for i, c := range p\<close> over the bytes of the import path, writing \<^verbatim>\<open>p[i]\<close> at every
  index.
\<close>

function identify_loop :: "nat \<Rightarrow> string \<Rightarrow> string" where
  "identify_loop i p =
     (if i < length p then
        (let c = p ! i in
         if c = CHR ''/'' \<or> c = CHR ''-'' \<or> c = CHR ''@'' \<or> c = CHR ''.''
         then identify_loop (Suc i) (p[i := CHR ''_''])
         else identify_loop (Suc i) (p[i := c]))
      else p)"
  by pat_completeness auto
termination
  by (relation "measure (\<lambda>(i, p). length p - i)") auto

declare identify_loop.simps [simp del]

definition identify :: "string \<Rightarrow> string" where
  "identify importPath = identify_loop 0 importPath"

subsection \<open>The data model\<close>

text \<open>
  Modelled from the spec: the types \<^verbatim>\<open>module\<close>, \<^verbatim>\<open>moduleSlice\<close> and
  \<^verbatim>\<open>NpmPackage\<close> are declared in files of the repository that are not part of the
  sources at hand. A specifier has a name, an exact version and an optional submodule;
  \<^verbatim>\<open>ImportPath()\<close> is the name when the submodule is empty, and the name, a slash and the
  submodule otherwise. A package descriptor has the fields below; a Go map from names to
  ranges is an association list of its entries.
\<close>

record module =
  name :: string
  version :: string
  submodule :: string

definition ImportPath :: "module \<Rightarrow> string" where
  "ImportPath m = (if submodule m = [] then name m else name m @ ''/'' @ submodule m)"

record NpmPackage =
  Name :: string
  Version :: string
  Main :: string
  Types :: string
  Typings :: string
  Dependencies :: "(string \<times> string) list"
  PeerDependencies :: "(string \<times> string) list"

text \<open>
  \<^verbatim>\<open>ImportMeta\<close> embeds \<^verbatim>\<open>NpmPackage\<close>: the record extends it, \<open>NpmPackage.extend\<close> builds
  \<^verbatim>\<open>&ImportMeta{NpmPackage: p}\<close> and \<open>NpmPackage.truncate\<close> reads \<^verbatim>\<open>meta.NpmPackage\<close>.
\<close>

record ImportMeta = NpmPackage +
  Exports :: "string list"
  TypesPath :: string

type_synonym importMetaMap = "(string \<times> ImportMeta) list"

record buildOptions =
  packages :: "module list"
  target :: string
  dev :: bool

record buildResult =
  buildID :: string
  importMeta :: importMetaMap
  single :: bool

text \<open>
  A Go error. \<^verbatim>\<open>build\<close> tells errors apart in four ways only: by identity with
  \<^verbatim>\<open>postdb.ErrNotFound\<close>, by \<^verbatim>\<open>os.IsExist\<close>, by \<^verbatim>\<open>os.IsNotExist\<close> and by the text
  \<^verbatim>\<open>err.Error()\<close>. A run-time panic (an index out of range) is a failure of its own.
\<close>

datatype errkind = Plain | PostdbErrNotFound | OsErrExist | OsErrNotExist

datatype error = Err errkind string | Panic string

fun Error_text :: "error \<Rightarrow> string" where
  "Error_text (Err k s) = s"
| "Error_text (Panic s) = s"

fun is_ErrNotFound :: "error \<Rightarrow> bool" where
  "is_ErrNotFound (Err k s) = (k = PostdbErrNotFound)"
| "is_ErrNotFound (Panic s) = False"

fun os_IsExist :: "error \<Rightarrow> bool" where
  "os_IsExist (Err k s) = (k = OsErrExist)"
| "os_IsExist (Panic s) = False"

fun os_IsNotExist :: "error \<Rightarrow> bool" where
  "os_IsNotExist (Err k s) = (k = OsErrNotExist)"
| "os_IsNotExist (Panic s) = False"

text \<open>\<^verbatim>\<open>errors.New\<close>.\<close>

definition errors_New :: "string \<Rightarrow> error" where
  "errors_New s = Err Plain s"

subsection \<open>Helpers that \<^verbatim>\<open>build.go\<close> calls and does not define\<close>

text \<open>
  The pure helpers: \<^verbatim>\<open>sort.Sort\<close> on a \<^verbatim>\<open>moduleSlice\<close> and its \<^verbatim>\<open>String()\<close>,
  \<^verbatim>\<open>sha1\<close>, \<^verbatim>\<open>base32.StdEncoding.EncodeToString\<close>, \<^verbatim>\<open>strings.ToLower\<close>,
  \<^verbatim>\<open>path.Join\<close>, \<^verbatim>\<open>path.Dir\<close>, \<^verbatim>\<open>json.Unmarshal\<close> into a map of \<^verbatim>\<open>ImportMeta\<close> (the error, and the
  value it leaves in the target), \<^verbatim>\<open>utils.MustEncodeJSON\<close>, \<^verbatim>\<open>fmt.Errorf\<close> on a format
  without operands, \<^verbatim>\<open>ensureExt\<close>, \<^verbatim>\<open>utils.CleanPath\<close>, \<^verbatim>\<open>utils.SplitByFirstByte\<close>,
  \<^verbatim>\<open>toRequire\<close> and the constant \<^verbatim>\<open>EOL\<close>. They are parameters of the model.
\<close>

record lib =
  sort_Sort :: "module list \<Rightarrow> module list"
  moduleSlice_String :: "module list \<Rightarrow> string"
  sha1_Sum :: "string \<Rightarrow> string"
  base32_EncodeToString :: "string \<Rightarrow> string"
  strings_ToLower :: "string \<Rightarrow> string"
  path_Join :: "string list \<Rightarrow> string"
  json_Unmarshal :: "string \<Rightarrow> error option \<times> importMetaMap"
  MustEncodeJSON :: "importMetaMap \<Rightarrow> string"
  fmt_Errorf :: "string \<Rightarrow> string"
  ensureExt :: "string \<Rightarrow> string \<Rightarrow> string"
  CleanPath :: "string \<Rightarrow> string"
  SplitByFirstByte :: "string \<Rightarrow> char \<Rightarrow> string \<times> string"
  path_Dir :: "string \<Rightarrow> string"
  toRequire :: "string \<Rightarrow> string"
  EOL :: string

text \<open>
  Modelled from the spec: the order of a \<^verbatim>\<open>moduleSlice\<close> (\<^verbatim>\<open>Less\<close>, not part of the
  sources at hand) is the lexicographic order of the bytes of \<^verbatim>\<open>ImportPath()\<close>.
  \<^verbatim>\<open>sort.Sort\<close> promises an ascending rearrangement of the slice and no stability.
\<close>

definition Less :: "module \<Rightarrow> module \<Rightarrow> bool" where
  "Less a b = (ImportPath a < ImportPath b)"

definition sorts :: "(module list \<Rightarrow> module list) \<Rightarrow> bool" where
  "sorts f = (\<forall>xs. mset (f xs) = mset xs \<and> sorted_wrt (\<lambda>a b. \<not> Less b a) (f xs))"

text \<open>
  \<^verbatim>\<open>api.Target\<close> of the bundler and the table \<^verbatim>\<open>targets\<close>; a key that is not in the
  table reads Go's zero value, the bundler's default target.
\<close>

datatype api_Target = DefaultTarget | ES2015 | ES2016 | ES2017 | ES2018 | ES2019 | ES2020

definition targets :: "string \<Rightarrow> api_Target" where
  "targets t =
     (if t = ''es2015'' then ES2015 else if t = ''es2016'' then ES2016
      else if t = ''es2017'' then ES2017 else if t = ''es2018'' then ES2018
      else if t = ''es2019'' then ES2019 else if t = ''es2020'' then ES2020
      else DefaultTarget)"

text \<open>
  The options \<^verbatim>\<open>build\<close> gives to \<^verbatim>\<open>api.Build\<close> (the format is always the ES module
  format, \<^verbatim>\<open>Bundle\<close> is on and \<^verbatim>\<open>Write\<close> is off), and what it reads of the result: the
  texts of the errors and the contents of the output files.
\<close>

record api_BuildOptions =
  EntryPoints :: "string list"
  Externals :: "string list"
  Target :: api_Target
  MinifyWhitespace :: bool
  MinifyIdentifiers :: bool
  MinifySyntax :: bool
  Defines :: "(string \<times> string) list"

record api_BuildResult =
  Errors :: "string list"
  OutputFiles :: "string list"

subsection \<open>The collaborators and the log of calls\<close>

datatype event =
    DbGet string
  | DbDelete string
  | DbPut string string string
  | OsStat string
  | GetPackageInfo string string
  | EnsureDir string
  | OsChdir string
  | ExecYarn "string list"
  | ParseJSONFile string
  | CopyDir string string
  | WriteFile string string
  | ExecNode string string
  | CopyDTS string string string
  | ApiBuild api_BuildOptions
  | OsCreate string
  | IoCopy string string
  | FileClose string
  | OsRemoveAll string

text \<open>
  Every collaborator answers a call from the log of the calls made before it and the
  arguments of the call. The registry client is a function of the name and the version
  alone (the spec takes the registry's metadata as stable for a name and a version). A
  command (\<^verbatim>\<open>yarn\<close>, \<^verbatim>\<open>node\<close>) answers \<open>Inl\<close> of its combined output when it fails.
\<close>

record env =
  db_Get :: "event list \<Rightarrow> string \<Rightarrow> error + string"
  db_Delete :: "event list \<Rightarrow> string \<Rightarrow> error option"
  db_Put :: "event list \<Rightarrow> string \<Rightarrow> string \<Rightarrow> string \<Rightarrow> error option"
  os_Stat :: "event list \<Rightarrow> string \<Rightarrow> error option"
  getPackageInfo :: "string \<Rightarrow> string \<Rightarrow> error + NpmPackage"
  os_TempDir :: string
  rs_Hex_String :: "event list \<Rightarrow> string"
  os_Chdir :: "event list \<Rightarrow> string \<Rightarrow> error option"
  exec_yarn :: "event list \<Rightarrow> string list \<Rightarrow> string + string"
  utils_ParseJSONFile :: "event list \<Rightarrow> string \<Rightarrow> error + NpmPackage"
  utils_CopyDir :: "event list \<Rightarrow> string \<Rightarrow> string \<Rightarrow> error option"
  ioutil_WriteFile :: "event list \<Rightarrow> string \<Rightarrow> string \<Rightarrow> error option"
  exec_node :: "event list \<Rightarrow> string \<Rightarrow> string \<Rightarrow> string + string"
  copyDTS :: "event list \<Rightarrow> string \<Rightarrow> string \<Rightarrow> string \<Rightarrow> error option"
  api_Build :: "event list \<Rightarrow> api_BuildOptions \<Rightarrow> api_BuildResult"
  os_Create :: "event list \<Rightarrow> string \<Rightarrow> error option"
  io_Copy :: "event list \<Rightarrow> string \<Rightarrow> string \<Rightarrow> error option"

subsection \<open>The build identifier (lines 68 to 84)\<close>

text \<open>
  The function gives the packages as the later steps read them and the identifier. In
  bundle mode \<^verbatim>\<open>sort.Sort(options.packages)\<close> rearranges the array that the caller's
  slice shares, so the slice is the sorted one from there on.
\<close>

definition derive_buildID :: "lib \<Rightarrow> buildOptions \<Rightarrow> module list \<times> string" where
  "derive_buildID L options =
     (if length (packages options) = 1 then
        (let pkg = packages options ! 0;
             filename = path_Base (name pkg);
             filename = (if submodule pkg \<noteq> [] then submodule pkg else filename);
             filename = (if dev options then filename @ ''.development'' else filename)
         in (packages options,
             name pkg @ ''@'' @ version pkg @ ''/'' @ target options @ ''/'' @ filename))
      else
        (let pkgs = sort_Sort L (packages options)
         in (pkgs,
             ''bundle-'' @ strings_ToLower L (base32_EncodeToString L (sha1_Sum L
               (moduleSlice_String L pkgs @ '' '' @ target options @ '' '' @
                fmt_bool (dev options)))))))"

subsection \<open>The cache lookup (lines 86 to 108)\<close>

datatype cache = Hit importMetaMap | Miss

definition cache_lookup ::
  "env \<Rightarrow> lib \<Rightarrow> string \<Rightarrow> string \<Rightarrow> event list \<Rightarrow> event list \<times> (error + cache)" where
  "cache_lookup E L storageDir bid log =
     (let log1 = log @ [DbGet bid] in
      case db_Get E log bid of
        Inl err \<Rightarrow> (if is_ErrNotFound err then (log1, Inr Miss) else (log1, Inl err))
      | Inr bytes \<Rightarrow>
          (case json_Unmarshal L bytes of
             (uerr, decoded) \<Rightarrow>
               (case (case uerr of
                        None \<Rightarrow> (log1, None)
                      | Some _ \<Rightarrow> (log1 @ [DbDelete bid], db_Delete E log1 bid)) of
                  (log2, Some err) \<Rightarrow> (log2, Inl err)
                | (log2, None) \<Rightarrow>
                    (let file = path_Join L [storageDir, ''builds'', bid @ ''.js''];
                         log3 = log2 @ [OsStat file] in
                     case os_Stat E log2 file of
                       None \<Rightarrow> (log3, Inr (Hit decoded))
                     | Some err \<Rightarrow>
                         (if os_IsExist err then (log3, Inl err)
                          else (case db_Delete E log3 bid of
                                  Some err' \<Rightarrow> (log3 @ [DbDelete bid], Inl err')
                                | None \<Rightarrow> (log3 @ [DbDelete bid], Inr Miss)))))))"

subsection \<open>Package information (lines 110 to 142)\<close>

text \<open>
  A Go map is an association list; \<^verbatim>\<open>m[k] = v\<close> is \<open>AList.update\<close>. A map to
  \<^verbatim>\<open>struct{}\<close> is the list of its keys, and \<open>set_add\<close> adds a key. Go leaves the order
  in which \<^verbatim>\<open>range\<close> visits a map open; the model visits the entries in the order of the
  list. The local map \<^verbatim>\<open>importMeta\<close> of \<^verbatim>\<open>build\<close> is the variable \<open>metas\<close> (the name
  \<open>importMeta\<close> is the field of the result).
\<close>

definition set_add :: "string \<Rightarrow> string list \<Rightarrow> string list" where
  "set_add n ns = (if n \<in> set ns then ns else ns @ [n])"

definition types_not_found :: "string \<Rightarrow> string" where
  "types_not_found n =
     ''npm: package '' @ [squote] @ ''@types/'' @ n @ [squote] @ '' not found''"

text \<open>The body of the loop of lines 118 to 142, for one package.\<close>

definition resolve_package ::
  "env \<Rightarrow> module \<Rightarrow> event list \<Rightarrow> string list \<Rightarrow> importMetaMap \<Rightarrow> string list \<Rightarrow>
   event list \<times> (error + string list \<times> importMetaMap \<times> string list)" where
  "resolve_package E pkg log installList metas peerDependencies =
     (let log1 = log @ [GetPackageInfo (name pkg) (version pkg)] in
      case getPackageInfo E (name pkg) (version pkg) of
        Inl err \<Rightarrow> (log1, Inl err)
      | Inr p \<Rightarrow>
          (let meta = NpmPackage.extend p (ImportMeta.fields [] []);
               peerDependencies = fold set_add (map fst (PeerDependencies p)) peerDependencies
           in if Types meta = [] \<and> Typings meta = [] \<and> \<not> strings_HasPrefix (name pkg) ''@''
              then
                (let log2 = log1 @ [GetPackageInfo (''@types/'' @ name pkg) ''latest''] in
                 case getPackageInfo E (''@types/'' @ name pkg) ''latest'' of
                   Inr info \<Rightarrow>
                     (log2, Inr
                        (if Types info \<noteq> [] \<or> Typings info \<noteq> [] \<or> Main info \<noteq> []
                         then installList @ [Name info @ ''@'' @ Version info]
                         else installList,
                         AList.update (ImportPath pkg) meta metas, peerDependencies))
                 | Inl err \<Rightarrow>
                     (if Error_text err \<noteq> types_not_found (name pkg) then (log2, Inl err)
                      else (log2, Inr (installList,
                              AList.update (ImportPath pkg) meta metas, peerDependencies))))
              else (log1, Inr (installList,
                      AList.update (ImportPath pkg) meta metas, peerDependencies))))"

fun resolve_packages ::
  "env \<Rightarrow> module list \<Rightarrow> event list \<Rightarrow> string list \<Rightarrow> importMetaMap \<Rightarrow> string list \<Rightarrow>
   event list \<times> (error + string list \<times> importMetaMap \<times> string list)" where
  "resolve_packages E [] log installList metas peerDependencies =
     (log, Inr (installList, metas, peerDependencies))"
| "resolve_packages E (pkg # pkgs) log installList metas peerDependencies =
     (case resolve_package E pkg log installList metas peerDependencies of
        (log1, Inl err) \<Rightarrow> (log1, Inl err)
      | (log1, Inr (installList1, metas1, peerDependencies1)) \<Rightarrow>
          resolve_packages E pkgs log1 installList1 metas1 peerDependencies1)"

subsection \<open>Peer dependencies (lines 144 to 169)\<close>

definition independent_of :: "module list \<Rightarrow> importMetaMap \<Rightarrow> string \<Rightarrow> bool" where
  "independent_of pkgs metas n =
     (let independent = \<not> list_ex (\<lambda>pkg. name pkg = n) pkgs
      in if independent
         then \<not> list_ex (\<lambda>(k, meta). list_ex (\<lambda>(dep, r). dep = n) (Dependencies meta)) metas
         else independent)"

fun classify ::
  "bool \<Rightarrow> module list \<Rightarrow> importMetaMap \<Rightarrow> string list \<Rightarrow> string list \<Rightarrow>
   (string \<times> string) list \<Rightarrow> string list \<times> (string \<times> string) list" where
  "classify sgl pkgs metas [] installList independentPackages =
     (installList, independentPackages)"
| "classify sgl pkgs metas (n # ns) installList independentPackages =
     classify sgl pkgs metas ns
       (if independent_of pkgs metas n then installList @ [n] else installList)
       (if sgl then AList.update n ''latest'' independentPackages else independentPackages)"

subsection \<open>\<^verbatim>\<open>yarnAdd\<close> (lines 410 to 421)\<close>

definition yarnAdd :: "env \<Rightarrow> lib \<Rightarrow> string list \<Rightarrow> event list \<Rightarrow> event list \<times> error option" where
  "yarnAdd E L pkgs log =
     (if length pkgs > 0 then
        (let args = ''add'' # pkgs in
         case exec_yarn E log args of
           Inl output \<Rightarrow> (log @ [ExecYarn args], Some (Err Plain (fmt_Errorf L output)))
         | Inr output \<Rightarrow> (log @ [ExecYarn args], None))
      else (log, None))"

subsection \<open>The submodule of a single package (lines 187 to 208)\<close>

definition stage_submodule ::
  "env \<Rightarrow> lib \<Rightarrow> bool \<Rightarrow> module list \<Rightarrow> string \<Rightarrow> (string \<times> string) list \<Rightarrow> event list \<Rightarrow>
   event list \<times> (error + (string \<times> string) list \<times> NpmPackage option)" where
  "stage_submodule E L sgl pkgs buildDir independentPackages log =
     (if sgl then
        (let pkg = pkgs ! 0 in
         if submodule pkg \<noteq> [] then
           (let file = path_Join L
                  [buildDir, ''node_modules'', name pkg, submodule pkg, ''package.json''];
                log1 = log @ [ParseJSONFile file] in
            case utils_ParseJSONFile E log file of
              Inr p \<Rightarrow>
                (let src = path_Join L [buildDir, ''node_modules'', name pkg, submodule pkg];
                     dst = path_Join L [buildDir, ''node_modules'', identify (ImportPath pkg)];
                     log2 = log1 @ [CopyDir src dst] in
                 case utils_CopyDir E log1 src dst of
                   Some err \<Rightarrow> (log2, Inl err)
                 | None \<Rightarrow>
                     (log2, Inr (fold (\<lambda>n. AList.update n ''latest'')
                                   (map fst (PeerDependencies p)) independentPackages,
                                 Some p)))
            | Inl err \<Rightarrow> (log1, Inr (independentPackages, None)))
         else (log, Inr (independentPackages, None)))
      else (log, Inr (independentPackages, None)))"

subsection \<open>The exports of the packages (lines 210 to 250)\<close>

definition node_env :: "buildOptions \<Rightarrow> string" where
  "node_env options = (if dev options then ''development'' else ''production'')"

definition peer_js :: "module list \<Rightarrow> string" where
  "peer_js pkgs =
     ''const meta = {};'' @
     ''const isObject = v => typeof v === '' @ [squote] @ ''object'' @ [squote] @
       '' && v !== null;'' @
     concat (map (\<lambda>m.
       (let importPath = ImportPath m;
            importIdentifier = identify importPath
        in ''const '' @ importIdentifier @ '' = require('' @ [dquote] @ importPath @
             [dquote] @ '');'' @
           ''meta['' @ [dquote] @ importPath @ [dquote] @ ''] = {exports: isObject('' @
             importIdentifier @ '') ? Object.keys('' @ importIdentifier @ '') : []};'')) pkgs) @
     ''process.stdout.write(JSON.stringify(meta));''"

text \<open>Lines 245 to 250: the exports of the names that \<^verbatim>\<open>importMeta\<close> already holds.\<close>

definition merge_exports :: "importMetaMap \<Rightarrow> importMetaMap \<Rightarrow> importMetaMap" where
  "merge_exports m metas =
     fold (\<lambda>(n, meta) im.
             case map_of im n of
               Some meta' \<Rightarrow> AList.update n (meta'\<lparr>Exports := Exports meta\<rparr>) im
             | None \<Rightarrow> im) m metas"

definition introspect ::
  "env \<Rightarrow> lib \<Rightarrow> buildOptions \<Rightarrow> module list \<Rightarrow> string \<Rightarrow> importMetaMap \<Rightarrow> event list \<Rightarrow>
   event list \<times> (error + importMetaMap)" where
  "introspect E L options pkgs buildDir metas log =
     (let file = path_Join L [buildDir, ''peer.js''];
          log1 = log @ [WriteFile file (peer_js pkgs)] in
      case ioutil_WriteFile E log file (peer_js pkgs) of
        Some err \<Rightarrow> (log1, Inl err)
      | None \<Rightarrow>
          (let log2 = log1 @ [ExecNode ''peer.js'' (node_env options)] in
           case exec_node E log1 ''peer.js'' (node_env options) of
             Inl output \<Rightarrow> (log2, Inl (errors_New output))
           | Inr output \<Rightarrow>
               (case json_Unmarshal L output of
                  (Some err, m) \<Rightarrow> (log2, Inl err)
                | (None, m) \<Rightarrow> (log2, Inr (merge_exports m metas)))))"

subsection \<open>\<^verbatim>\<open>getTypesPath\<close> (lines 436 to 449)\<close>

definition getTypesPath :: "lib \<Rightarrow> NpmPackage \<Rightarrow> string" where
  "getTypesPath L p =
     (let path = (if Types p \<noteq> [] then Types p
                  else if Typings p \<noteq> [] then Typings p
                  else if Main p \<noteq> [] then strings_TrimSuffix (Main p) ''.js''
                  else [])
      in if path \<noteq> []
         then Name p @ ''@'' @ Version p @ ensureExt L (CleanPath L path) ''.d.ts''
         else [])"

subsection \<open>The declaration files (lines 252 to 284)\<close>

text \<open>
  The body of the loop for one package. \<^verbatim>\<open>importMeta[pkg.ImportPath()]\<close> is a pointer;
  a missing key would read \<^verbatim>\<open>nil\<close> and panic at the first field.
\<close>

definition stage_types_package ::
  "env \<Rightarrow> lib \<Rightarrow> string \<Rightarrow> string \<Rightarrow> NpmPackage option \<Rightarrow> module \<Rightarrow> importMetaMap \<Rightarrow>
   event list \<Rightarrow> event list \<times> (error + importMetaMap)" where
  "stage_types_package E L storageDir buildDir singleIndependentSubmodule pkg metas log =
     (if submodule pkg = [] \<or> singleIndependentSubmodule \<noteq> None then
        (case map_of metas (ImportPath pkg) of
           None \<Rightarrow> (log, Inl (Panic ''invalid memory address or nil pointer dereference''))
         | Some meta \<Rightarrow>
             (case (case singleIndependentSubmodule of
                      Some sub \<Rightarrow>
                        (let types = getTypesPath L sub in
                         if types \<noteq> [] then
                           (let typespath = snd (SplitByFirstByte L types (CHR ''/''))
                            in (log, Inr (Name meta @ ''@'' @ Version meta @ ''/'' @
                                          path_Join L [submodule pkg, typespath])))
                         else (log, Inr types))
                    | None \<Rightarrow>
                        (if Types meta = [] \<and> Typings meta = [] \<and>
                            \<not> strings_HasPrefix (name pkg) ''@''
                         then
                           (let file = path_Join L
                                  [buildDir, ''node_modules'', ''@types/'' @ name pkg,
                                   ''package.json''];
                                log1 = log @ [ParseJSONFile file] in
                            case utils_ParseJSONFile E log file of
                              Inr info \<Rightarrow> (log1, Inr (getTypesPath L info))
                            | Inl err \<Rightarrow>
                                (if \<not> os_IsNotExist err then (log1, Inl err)
                                 else (log1, Inr [])))
                         else (log, Inr []))) of
                (log1, Inl err) \<Rightarrow> (log1, Inl err)
              | (log1, Inr types) \<Rightarrow>
                  (let types = (if types = [] then getTypesPath L (NpmPackage.truncate meta)
                                else types) in
                   if types \<noteq> [] then
                     (let nm = path_Join L [buildDir, ''node_modules''];
                          td = path_Join L [storageDir, ''types''];
                          log2 = log1 @ [CopyDTS nm td types] in
                      case copyDTS E log1 nm td types of
                        Some err \<Rightarrow> (log2, Inl err)
                      | None \<Rightarrow>
                          (log2, Inr (AList.update (ImportPath pkg)
                                        (meta\<lparr>TypesPath := ''/'' @ types\<rparr>) metas)))
                   else (log1, Inr metas))))
      else (log, Inr metas))"

fun stage_types ::
  "env \<Rightarrow> lib \<Rightarrow> string \<Rightarrow> string \<Rightarrow> NpmPackage option \<Rightarrow> module list \<Rightarrow> importMetaMap \<Rightarrow>
   event list \<Rightarrow> event list \<times> (error + importMetaMap)" where
  "stage_types E L storageDir buildDir singleIndependentSubmodule [] metas log =
     (log, Inr metas)"
| "stage_types E L storageDir buildDir singleIndependentSubmodule (pkg # pkgs) metas log =
     (case stage_types_package E L storageDir buildDir singleIndependentSubmodule pkg metas log of
        (log1, Inl err) \<Rightarrow> (log1, Inl err)
      | (log1, Inr metas1) \<Rightarrow>
          stage_types E L storageDir buildDir singleIndependentSubmodule pkgs metas1 log1)"

subsection \<open>The entry file \<^verbatim>\<open>bundle.js\<close> (lines 286 to 297)\<close>

definition bundle_js :: "bool \<Rightarrow> NpmPackage option \<Rightarrow> module list \<Rightarrow> string" where
  "bundle_js sgl singleIndependentSubmodule pkgs =
     concat (map (\<lambda>m.
       (let importPath = ImportPath m in
        if sgl then
          (let importPath = (if singleIndependentSubmodule \<noteq> None then identify importPath
                             else importPath)
           in ''export * as default from '' @ [dquote] @ importPath @ [dquote] @ '';'')
        else ''export * as '' @ identify importPath @ '' from '' @ [dquote] @ importPath @
               [dquote] @ '';'')) pkgs)"

subsection \<open>The externals (lines 304 to 315)\<close>

text \<open>
  The loop over the names of \<^verbatim>\<open>independentPackages\<close>: the version of each is read from
  its installed descriptor, and the name is the next external.
\<close>

fun resolve_externals ::
  "env \<Rightarrow> lib \<Rightarrow> string \<Rightarrow> string list \<Rightarrow> (string \<times> string) list \<Rightarrow> string list \<Rightarrow>
   event list \<Rightarrow> event list \<times> (error + (string \<times> string) list \<times> string list)" where
  "resolve_externals E L buildDir [] independentPackages externals log =
     (log, Inr (independentPackages, externals))"
| "resolve_externals E L buildDir (n # ns) independentPackages externals log =
     (let file = path_Join L [buildDir, ''node_modules'', n, ''package.json''];
          log1 = log @ [ParseJSONFile file] in
      case utils_ParseJSONFile E log file of
        Inl err \<Rightarrow> (log1, Inl err)
      | Inr p \<Rightarrow>
          resolve_externals E L buildDir ns
            (AList.update n (Version p) independentPackages) (externals @ [n]) log1)"

subsection \<open>The bundler and its retries (lines 317 to 354)\<close>

definition esbuild_options :: "buildOptions \<Rightarrow> string list \<Rightarrow> api_BuildOptions" where
  "esbuild_options options externals =
     \<lparr>EntryPoints = [''bundle.js''],
      Externals = externals,
      Target = targets (target options),
      MinifyWhitespace = (\<not> dev options),
      MinifyIdentifiers = (\<not> dev options),
      MinifySyntax = (\<not> dev options),
      Defines = [(''process.env.NODE_ENV'', [dquote] @ node_env options @ [dquote])]\<rparr>"

definition could_not_resolve :: string where
  "could_not_resolve = ''Could not resolve '' @ [dquote]"

text \<open>
  The label \<^verbatim>\<open>esbuild\<close> and the \<^verbatim>\<open>goto\<close>: a loop that ends when the bundler reports no
  error, or an error that is not retried. Nothing bounds the number of names a bundler can
  report, so the loop is a partial function: \<open>None\<close> is a run that never returns.
\<close>

partial_function (option) esbuild_loop ::
  "env \<Rightarrow> lib \<Rightarrow> api_BuildOptions \<Rightarrow> string list \<Rightarrow> event list \<Rightarrow>
   (event list \<times> (error + api_BuildResult)) option" where
  "esbuild_loop E L opts missingResolved log =
     (let result = api_Build E log opts;
          log1 = log @ [ApiBuild opts] in
      if length (Errors result) > 0 then
        (let fe = Errors result ! 0 in
         if strings_HasPrefix fe could_not_resolve \<and>
            strings_Split fe dquote ! 1 \<noteq> [] \<and>
            strings_Split fe dquote ! 1 \<notin> set missingResolved
         then
           (let missingModule = strings_Split fe dquote ! 1 in
            case yarnAdd E L [missingModule] log1 of
              (log2, Some err) \<Rightarrow> Some (log2, Inl err)
            | (log2, None) \<Rightarrow>
                esbuild_loop E L opts (set_add missingModule missingResolved) log2)
         else Some (log1, Inl (errors_New (''esbuild: '' @ fe))))
      else Some (log1, Inr result))"

subsection \<open>The artifact (lines 356 to 383)\<close>

definition artifact ::
  "lib \<Rightarrow> buildOptions \<Rightarrow> module list \<Rightarrow> (string \<times> string) list \<Rightarrow> string \<Rightarrow> string" where
  "artifact L options pkgs independentPackages contents =
     (let header = ''/* esm.sh - esbuild bundle('' @ moduleSlice_String L pkgs @ '') '' @
                   strings_ToLower L (target options) @ '' '' @ node_env options @ '' */'' @
                   EOL L
      in if length independentPackages > 0 then
           (let indent = (if dev options then ''  '' else []);
                eol = (if dev options then EOL L else []);
                esModules = map (\<lambda>(n, v). [dquote] @ n @ [dquote] @ '': '' @ identify n)
                              independentPackages;
                imports = concat (map (\<lambda>(n, v).
                  (let identifier = identify n;
                       filename = path_Base n;
                       filename = (if dev options then filename @ ''.development''
                                   else filename)
                   in ''import '' @ identifier @ '' from '' @ [dquote] @ ''/'' @ n @ ''@'' @ v @
                        ''/'' @ target options @ ''/'' @ ensureExt L filename ''.js'' @
                        [dquote] @ '';'' @ eol)) independentPackages)
            in header @ imports @
               ''var __esModules = {'' @ eol @
               indent @ strings_Join esModules ('','' @ eol @ indent) @ eol @
               ''};'' @ eol @
               ''var require = name => __esModules[name];'' @ eol @
               toRequire L contents)
         else header @ contents)"

subsection \<open>Writing the artifact and the record (lines 385 to 408)\<close>

text \<open>
  The value of \<^verbatim>\<open>db.Put\<close> is not read. \<^verbatim>\<open>file.Close\<close> is deferred from the moment the
  file is created.
\<close>

definition persist ::
  "env \<Rightarrow> lib \<Rightarrow> string \<Rightarrow> string \<Rightarrow> bool \<Rightarrow> importMetaMap \<Rightarrow> string \<Rightarrow> event list \<Rightarrow>
   event list \<times> (error + buildResult)" where
  "persist E L storageDir bid sgl metas jsContent log =
     (let saveFilePath = path_Join L [storageDir, ''builds'', bid @ ''.js''];
          log1 = log @ [EnsureDir (path_Dir L saveFilePath)];
          log2 = log1 @ [OsCreate saveFilePath] in
      case os_Create E log1 saveFilePath of
        Some err \<Rightarrow> (log2, Inl err)
      | None \<Rightarrow>
          (let log3 = log2 @ [IoCopy saveFilePath jsContent] in
           case io_Copy E log2 saveFilePath jsContent of
             Some err \<Rightarrow> (log3 @ [FileClose saveFilePath], Inl err)
           | None \<Rightarrow>
               (let put = db_Put E log3 bid ''bundle'' (MustEncodeJSON L metas);
                    log4 = log3 @ [DbPut bid ''bundle'' (MustEncodeJSON L metas)]
                in (log4 @ [FileClose saveFilePath],
                    Inr \<lparr>buildID = bid, importMeta = metas, single = sgl\<rparr>))))"

subsection \<open>\<^verbatim>\<open>build\<close> (lines 58 to 408)\<close>

text \<open>Lines 286 to 408, in the scratch directory.\<close>

definition bundle_and_save ::
  "env \<Rightarrow> lib \<Rightarrow> string \<Rightarrow> buildOptions \<Rightarrow> bool \<Rightarrow> module list \<Rightarrow> string \<Rightarrow> string \<Rightarrow>
   importMetaMap \<Rightarrow> (string \<times> string) list \<Rightarrow> NpmPackage option \<Rightarrow> event list \<Rightarrow>
   (event list \<times> (error + buildResult)) option" where
  "bundle_and_save E L storageDir options sgl pkgs bid buildDir metas independentPackages
       singleIndependentSubmodule log =
     (let file = path_Join L [buildDir, ''bundle.js''];
          code = bundle_js sgl singleIndependentSubmodule pkgs;
          log1 = log @ [WriteFile file code] in
      case ioutil_WriteFile E log file code of
        Some err \<Rightarrow> Some (log1, Inl err)
      | None \<Rightarrow>
          (case resolve_externals E L buildDir (map fst independentPackages)
                  independentPackages [] log1 of
             (log2, Inl err) \<Rightarrow> Some (log2, Inl err)
           | (log2, Inr (independentPackages1, externals)) \<Rightarrow>
               (case esbuild_loop E L (esbuild_options options externals) [] log2 of
                  None \<Rightarrow> None
                | Some (log3, Inl err) \<Rightarrow> Some (log3, Inl err)
                | Some (log3, Inr result) \<Rightarrow>
                    (case OutputFiles result of
                       [] \<Rightarrow> Some (log3, Inl (Panic ''index out of range [0] with length 0''))
                     | contents # other \<Rightarrow>
                         Some (persist E L storageDir bid sgl metas
                                 (artifact L options pkgs independentPackages1 contents)
                                 log3)))))"

text \<open>Lines 177 to 284, in the scratch directory.\<close>

definition install_and_inspect ::
  "env \<Rightarrow> lib \<Rightarrow> string \<Rightarrow> buildOptions \<Rightarrow> bool \<Rightarrow> module list \<Rightarrow> string \<Rightarrow>
   string list \<Rightarrow> importMetaMap \<Rightarrow> (string \<times> string) list \<Rightarrow> event list \<Rightarrow>
   event list \<times> (error + importMetaMap \<times> (string \<times> string) list \<times> NpmPackage option)" where
  "install_and_inspect E L storageDir options sgl pkgs buildDir installList metas
       independentPackages log =
     (let log1 = log @ [OsChdir buildDir] in
      case os_Chdir E log buildDir of
        Some err \<Rightarrow> (log1, Inl err)
      | None \<Rightarrow>
          (case yarnAdd E L installList log1 of
             (log2, Some err) \<Rightarrow> (log2, Inl err)
           | (log2, None) \<Rightarrow>
               (case stage_submodule E L sgl pkgs buildDir independentPackages log2 of
                  (log3, Inl err) \<Rightarrow> (log3, Inl err)
                | (log3, Inr (independentPackages1, singleIndependentSubmodule)) \<Rightarrow>
                    (case introspect E L options pkgs buildDir metas log3 of
                       (log4, Inl err) \<Rightarrow> (log4, Inl err)
                     | (log4, Inr metas1) \<Rightarrow>
                         (case stage_types E L storageDir buildDir singleIndependentSubmodule
                                 pkgs metas1 log4 of
                            (log5, Inl err) \<Rightarrow> (log5, Inl err)
                          | (log5, Inr metas2) \<Rightarrow>
                              (log5, Inr (metas2, independentPackages1,
                                          singleIndependentSubmodule)))))))"

text \<open>
  Lines 110 to 408: the build after a cache miss. \<^verbatim>\<open>os.RemoveAll(buildDir)\<close> is deferred
  from line 175 and runs on every way out.
\<close>

definition rebuild ::
  "env \<Rightarrow> lib \<Rightarrow> string \<Rightarrow> buildOptions \<Rightarrow> bool \<Rightarrow> module list \<Rightarrow> string \<Rightarrow> event list \<Rightarrow>
   (event list \<times> (error + buildResult)) option" where
  "rebuild E L storageDir options sgl pkgs bid log =
     (case resolve_packages E pkgs log (map (\<lambda>pkg. name pkg @ ''@'' @ version pkg) pkgs) [] [] of
        (log1, Inl err) \<Rightarrow> Some (log1, Inl err)
      | (log1, Inr (installList, metas, peerDependencies)) \<Rightarrow>
          (case classify sgl pkgs metas peerDependencies installList [] of
             (installList1, independentPackages) \<Rightarrow>
               (let buildDir = path_Join L [os_TempDir E, ''esmd-build'', rs_Hex_String E log1];
                    log2 = log1 @ [EnsureDir buildDir] in
                case install_and_inspect E L storageDir options sgl pkgs buildDir installList1
                       metas independentPackages log2 of
                  (log3, Inl err) \<Rightarrow> Some (log3 @ [OsRemoveAll buildDir], Inl err)
                | (log3, Inr (metas1, independentPackages1, singleIndependentSubmodule)) \<Rightarrow>
                    map_option (\<lambda>(log4, r). (log4 @ [OsRemoveAll buildDir], r))
                      (bundle_and_save E L storageDir options sgl pkgs bid buildDir metas1
                         independentPackages1 singleIndependentSubmodule log3))))"

text \<open>
  The outcome of a call: the contents of the caller's slice of packages when \<^verbatim>\<open>build\<close>
  returns, the log with the calls of the build appended, and the error or the result.
\<close>

definition build ::
  "env \<Rightarrow> lib \<Rightarrow> string \<Rightarrow> buildOptions \<Rightarrow> event list \<Rightarrow>
   (module list \<times> event list \<times> (error + buildResult)) option" where
  "build E L storageDir options log =
     (if length (packages options) = 0
      then Some (packages options, log, Inl (Err Plain ''no packages''))
      else
        (let sgl = (length (packages options) = 1) in
         case derive_buildID L options of
           (pkgs, bid) \<Rightarrow>
             (case cache_lookup E L storageDir bid log of
                (log1, Inl err) \<Rightarrow> Some (pkgs, log1, Inl err)
              | (log1, Inr (Hit decoded)) \<Rightarrow>
                  Some (pkgs, log1, Inr \<lparr>buildID = bid, importMeta = decoded, single = sgl\<rparr>)
              | (log1, Inr Miss) \<Rightarrow>
                  map_option (\<lambda>(log2, r). (pkgs, log2, r))
                    (rebuild E L storageDir options sgl pkgs bid log1))))"

subsection \<open>What a log shows\<close>

text \<open>
  The calls of the bundler, the files written with \<^verbatim>\<open>ioutil.WriteFile\<close>, the
  arguments of the install tool, the requests to the registry and the descriptors read
  with \<^verbatim>\<open>utils.ParseJSONFile\<close>, each in the order of the log.
\<close>

fun bundler_calls :: "event list \<Rightarrow> api_BuildOptions list" where
  "bundler_calls [] = []"
| "bundler_calls (ApiBuild opts # evs) = opts # bundler_calls evs"
| "bundler_calls (ev # evs) = bundler_calls evs"

fun written_files :: "event list \<Rightarrow> (string \<times> string) list" where
  "written_files [] = []"
| "written_files (WriteFile file content # evs) = (file, content) # written_files evs"
| "written_files (ev # evs) = written_files evs"

fun installs :: "event list \<Rightarrow> string list list" where
  "installs [] = []"
| "installs (ExecYarn args # evs) = args # installs evs"
| "installs (ev # evs) = installs evs"

fun registry_requests :: "event list \<Rightarrow> event list" where
  "registry_requests [] = []"
| "registry_requests (GetPackageInfo n v # evs) = GetPackageInfo n v # registry_requests evs"
| "registry_requests (ev # evs) = registry_requests evs"

fun descriptor_reads :: "event list \<Rightarrow> string list" where
  "descriptor_reads [] = []"
| "descriptor_reads (ParseJSONFile file # evs) = file # descriptor_reads evs"
| "descriptor_reads (ev # evs) = descriptor_reads evs"

subsection \<open>The words of the spec\<close>

text \<open>
  Following the spec: the \<^verbatim>\<open>@types\<close> probe is wanted for a requested package whose name
  does not start with \<^verbatim>\<open>@\<close> and whose descriptor has neither \<^verbatim>\<open>Types\<close> nor
  \<^verbatim>\<open>Typings\<close>; its answer is tolerated when it is a descriptor or an error with exactly
  the text \<^verbatim>\<open>npm: package '@types/{name}' not found\<close>. \<open>registry_calls\<close> are the requests
  that the spec expects for one package.
\<close>

definition probe_wanted :: "env \<Rightarrow> module \<Rightarrow> bool" where
  "probe_wanted E pkg =
     (case getPackageInfo E (name pkg) (version pkg) of
        Inl err \<Rightarrow> False
      | Inr p \<Rightarrow> Types p = [] \<and> Typings p = [] \<and> \<not> strings_HasPrefix (name pkg) ''@'')"

definition probe_tolerated :: "env \<Rightarrow> module \<Rightarrow> bool" where
  "probe_tolerated E pkg =
     (case getPackageInfo E (''@types/'' @ name pkg) ''latest'' of
        Inl err \<Rightarrow> Error_text err = types_not_found (name pkg)
      | Inr info \<Rightarrow> True)"

definition registry_calls :: "env \<Rightarrow> module \<Rightarrow> event list" where
  "registry_calls E pkg =
     GetPackageInfo (name pkg) (version pkg) #
     (if probe_wanted E pkg then [GetPackageInfo (''@types/'' @ name pkg) ''latest''] else [])"

text \<open>
  Following the spec: the peer-dependency names and the dependency names of the
  descriptor of a requested package, and the independent names of a request, the
  peer-dependency names that are neither the name of a requested package nor a key of a
  requested package's \<^verbatim>\<open>Dependencies\<close>.
\<close>

definition peer_names :: "env \<Rightarrow> module \<Rightarrow> string set" where
  "peer_names E pkg =
     (case getPackageInfo E (name pkg) (version pkg) of
        Inl err \<Rightarrow> {}
      | Inr p \<Rightarrow> fst ` set (PeerDependencies p))"




text \<open>
  Following the spec: the last path segment of a name, the bytes after its last slash
  once the slashes at its end are set aside. It is empty exactly when the name has no byte
  other than a slash.
\<close>

definition last_path_segment :: "string \<Rightarrow> string" where
  "last_path_segment n =
     rev (takeWhile (\<lambda>c. c \<noteq> CHR ''/'') (dropWhile (\<lambda>c. c = CHR ''/'') (rev n)))"


subsection \<open>Concrete collaborators for the examples\<close>

text \<open>
  The insertion sort of Go's package \<^verbatim>\<open>sort\<close>, which is all that \<^verbatim>\<open>sort.Sort\<close> runs on
  a slice of up to six elements: from the second element on, each element is swapped
  with its left neighbour while \<^verbatim>\<open>Less\<close> puts it before that neighbour. \<open>insert_left\<close>
  takes the elements to the left nearest first.
\<close>

fun insert_left :: "module \<Rightarrow> module list \<Rightarrow> module list" where
  "insert_left x [] = [x]"
| "insert_left x (y # ys) = (if Less x y then y # insert_left x ys else x # y # ys)"

definition insertionSort :: "module list \<Rightarrow> module list" where
  "insertionSort xs = rev (foldl (\<lambda>left x. insert_left x left) [] xs)"

text \<open>
  A library for the examples: the insertion sort above, specifier forms
  \<^verbatim>\<open>name@version[/submodule]\<close> joined by commas, paths joined by slashes, a JSON decoder
  that reads the empty object only and an encoder that writes the keys. The hash, the
  base-32 encoding and \<^verbatim>\<open>strings.ToLower\<close> are stand-ins that return their argument.
\<close>

definition specifier_form :: "module \<Rightarrow> string" where
  "specifier_form m =
     name m @ ''@'' @ version m @ (if submodule m = [] then [] else ''/'' @ submodule m)"

definition encode0 :: "importMetaMap \<Rightarrow> string" where
  "encode0 m = ''{'' @ strings_Join (map (\<lambda>(k, meta). [dquote] @ k @ [dquote]) m) '','' @ ''}''"

definition lib0 :: lib where
  "lib0 =
     \<lparr>sort_Sort = insertionSort,
      moduleSlice_String = (\<lambda>ms. strings_Join (map specifier_form ms) '',''),
      sha1_Sum = (\<lambda>s. s),
      base32_EncodeToString = (\<lambda>s. s),
      strings_ToLower = (\<lambda>s. s),
      path_Join = (\<lambda>ps. strings_Join ps ''/''),
      json_Unmarshal =
        (\<lambda>s. if s = ''{}'' then (None, []) else (Some (Err Plain ''invalid character''), [])),
      MustEncodeJSON = encode0,
      fmt_Errorf = (\<lambda>s. s),
      ensureExt = (\<lambda>s ext. strings_TrimSuffix s ext @ ext),
      CleanPath = (\<lambda>s. ''/'' @ s),
      SplitByFirstByte =
        (\<lambda>s c. (takeWhile (\<lambda>x. x \<noteq> c) s, drop 1 (dropWhile (\<lambda>x. x \<noteq> c) s))),
      path_Dir = (\<lambda>s. rev (drop 1 (dropWhile (\<lambda>c. c \<noteq> CHR ''/'') (rev s)))),
      toRequire = (\<lambda>s. s),
      EOL = [CHR 0x0A]\<rparr>"

text \<open>
  A registry of four packages; every other name is answered with the error of the
  registry client for a package that does not exist. The only package that the install
  tool is asked for by name alone is \<^verbatim>\<open>react\<close>, so its descriptor is the only one read
  from \<^verbatim>\<open>node_modules\<close>.
\<close>

definition registry0 :: "string \<Rightarrow> string \<Rightarrow> error + NpmPackage" where
  "registry0 n v =
     (if n = ''left-pad'' then
        Inr \<lparr>Name = ''left-pad'', Version = ''1.3.0'', Main = ''index.js'', Types = [],
             Typings = [], Dependencies = [], PeerDependencies = []\<rparr>
      else if n = ''react-dom'' then
        Inr \<lparr>Name = ''react-dom'', Version = ''17.0.2'', Main = ''index.js'', Types = [],
             Typings = [], Dependencies = [(''scheduler'', ''^0.20.2'')],
             PeerDependencies = [(''react'', ''17.0.2'')]\<rparr>
      else if n = ''react'' then
        Inr \<lparr>Name = ''react'', Version = ''17.0.2'', Main = ''index.js'', Types = [],
             Typings = [], Dependencies = [(''object-assign'', ''^4.1.1'')],
             PeerDependencies = []\<rparr>
      else if n = ''ui-kit'' then
        Inr \<lparr>Name = ''ui-kit'', Version = ''2.0.0'', Main = ''index.js'', Types = ''index.d.ts'',
             Typings = [], Dependencies = [(''react'', ''^17.0.0'')],
             PeerDependencies = [(''react'', ''^17.0.0'')]\<rparr>
      else Inl (Err Plain (''npm: package '' @ [squote] @ n @ [squote] @ '' not found'')))"

definition installed0 :: "event list \<Rightarrow> string \<Rightarrow> error + NpmPackage" where
  "installed0 log file =
     (if file = ''/tmp/esmd-build/0f/node_modules/react/package.json''
      then registry0 ''react'' ''17.0.2''
      else Inl (Err OsErrNotExist ''open: no such file or directory''))"

text \<open>
  Collaborators that never fail: an empty store, no artifact on disk, a module runtime
  that prints the empty object and a bundler that returns one output file.
\<close>

definition env0 :: env where
  "env0 =
     \<lparr>db_Get = (\<lambda>log a. Inl (Err PostdbErrNotFound ''record not found'')),
      db_Delete = (\<lambda>log a. None),
      db_Put = (\<lambda>log a t v. None),
      os_Stat = (\<lambda>log f. Some (Err OsErrNotExist ''stat: no such file or directory'')),
      getPackageInfo = registry0,
      os_TempDir = ''/tmp'',
      rs_Hex_String = (\<lambda>log. ''0f''),
      os_Chdir = (\<lambda>log d. None),
      exec_yarn = (\<lambda>log args. Inr []),
      utils_ParseJSONFile = installed0,
      utils_CopyDir = (\<lambda>log s d. None),
      ioutil_WriteFile = (\<lambda>log f c. None),
      exec_node = (\<lambda>log f e. Inr ''{}''),
      copyDTS = (\<lambda>log a b c. None),
      api_Build = (\<lambda>log opts. \<lparr>Errors = [], OutputFiles = [''export{}'']\<rparr>),
      os_Create = (\<lambda>log f. None),
      io_Copy = (\<lambda>log f c. None)\<rparr>"

text \<open>The requests of the examples.\<close>

definition left_pad :: buildOptions where
  "left_pad =
     \<lparr>packages = [\<lparr>name = ''left-pad'', version = ''1.3.0'', submodule = []\<rparr>],
      target = ''es2019'', dev = False\<rparr>"

definition left_pad_sub :: buildOptions where
  "left_pad_sub =
     \<lparr>packages = [\<lparr>name = ''left-pad'', version = ''1.3.0'', submodule = ''left-pad''\<rparr>],
      target = ''es2019'', dev = False\<rparr>"

definition react_dom :: buildOptions where
  "react_dom =
     \<lparr>packages = [\<lparr>name = ''react-dom'', version = ''17.0.2'', submodule = []\<rparr>],
      target = ''es2019'', dev = False\<rparr>"

definition react_dom_left_pad :: buildOptions where
  "react_dom_left_pad =
     \<lparr>packages = [\<lparr>name = ''react-dom'', version = ''17.0.2'', submodule = []\<rparr>,
                 \<lparr>name = ''left-pad'', version = ''1.3.0'', submodule = []\<rparr>],
      target = ''es2019'', dev = False\<rparr>"

definition ui_kit :: buildOptions where
  "ui_kit =
     \<lparr>packages = [\<lparr>name = ''ui-kit'', version = ''2.0.0'', submodule = []\<rparr>],
      target = ''es2019'', dev = False\<rparr>"

definition scoped_foo_dev :: buildOptions where
  "scoped_foo_dev =
     \<lparr>packages = [\<lparr>name = ''@scope/foo'', version = ''1.0.0'', submodule = []\<rparr>],
      target = ''es2019'', dev = True\<rparr>"

definition preact_hooks :: buildOptions where
  "preact_hooks =
     \<lparr>packages = [\<lparr>name = ''preact'', version = ''10.5.0'', submodule = ''hooks''\<rparr>],
      target = ''es2019'', dev = False\<rparr>"

definition react16 :: module where
  "react16 = \<lparr>name = ''react'', version = ''16.14.0'', submodule = []\<rparr>"

definition react17 :: module where
  "react17 = \<lparr>name = ''react'', version = ''17.0.2'', submodule = []\<rparr>"

definition scoped_foo :: module where
  "scoped_foo = \<lparr>name = ''@scope/foo'', version = ''1.0.0'', submodule = []\<rparr>"

text \<open>What the build of \<^verbatim>\<open>left-pad\<close> returns and the calls it makes, in order.\<close>

definition left_pad_meta :: importMetaMap where
  "left_pad_meta =
     [(''left-pad'',
       \<lparr>Name = ''left-pad'', Version = ''1.3.0'', Main = ''index.js'', Types = [], Typings = [],
        Dependencies = [], PeerDependencies = [], Exports = [],
        TypesPath = ''/left-pad@1.3.0/index.d.ts''\<rparr>)]"

definition left_pad_trace :: "event list" where
  "left_pad_trace =
     [DbGet ''left-pad@1.3.0/es2019/left-pad'',
      GetPackageInfo ''left-pad'' ''1.3.0'',
      GetPackageInfo ''@types/left-pad'' ''latest'',
      EnsureDir ''/tmp/esmd-build/0f'',
      OsChdir ''/tmp/esmd-build/0f'',
      ExecYarn [''add'', ''left-pad@1.3.0''],
      WriteFile ''/tmp/esmd-build/0f/peer.js'' (peer_js (packages left_pad)),
      ExecNode ''peer.js'' ''production'',
      ParseJSONFile ''/tmp/esmd-build/0f/node_modules/@types/left-pad/package.json'',
      CopyDTS ''/tmp/esmd-build/0f/node_modules'' ''/data/types'' ''left-pad@1.3.0/index.d.ts'',
      WriteFile ''/tmp/esmd-build/0f/bundle.js'' (bundle_js True None (packages left_pad)),
      ApiBuild (esbuild_options left_pad []),
      EnsureDir ''/data/builds/left-pad@1.3.0/es2019'',
      OsCreate ''/data/builds/left-pad@1.3.0/es2019/left-pad.js'',
      IoCopy ''/data/builds/left-pad@1.3.0/es2019/left-pad.js''
        (artifact lib0 left_pad (packages left_pad) [] ''export{}''),
      DbPut ''left-pad@1.3.0/es2019/left-pad'' ''bundle'' (encode0 left_pad_meta),
      FileClose ''/data/builds/left-pad@1.3.0/es2019/left-pad.js'',
      OsRemoveAll ''/tmp/esmd-build/0f'']"

text \<open>
  Collaborators that differ from \<open>env0\<close> in one answer: a stored record that does not
  decode while the artifact is on disk; a store whose \<^verbatim>\<open>Put\<close> fails; a bundler that
  cannot resolve the empty name; a bundler that cannot resolve \<^verbatim>\<open>object-assign\<close> until
  the install tool has added it; a registry that times out on the \<^verbatim>\<open>@types\<close> probe.
\<close>

definition env_corrupt :: env where
  "env_corrupt = env0\<lparr>db_Get := (\<lambda>log a. Inr ''{''), os_Stat := (\<lambda>log f. None)\<rparr>"

definition env_put_fails :: env where
  "env_put_fails = env0\<lparr>db_Put := (\<lambda>log a t v. Some (Err Plain ''postdb: write failed''))\<rparr>"

definition env_empty_name :: env where
  "env_empty_name =
     env0\<lparr>api_Build := (\<lambda>log opts. \<lparr>Errors = [could_not_resolve @ [dquote]], OutputFiles = []\<rparr>)\<rparr>"

definition env_retry :: env where
  "env_retry =
     env0\<lparr>api_Build := (\<lambda>log opts.
        if ExecYarn [''add'', ''object-assign''] \<in> set log
        then \<lparr>Errors = [], OutputFiles = [''export{}'']\<rparr>
        else \<lparr>Errors = [could_not_resolve @ ''object-assign'' @ [dquote]], OutputFiles = []\<rparr>)\<rparr>"

definition env_timeout :: env where
  "env_timeout =
     env0\<lparr>getPackageInfo := (\<lambda>n v.
        if n = ''@types/left-pad'' then Inl (Err Plain ''npm: request timed out'')
        else registry0 n v)\<rparr>"

text \<open>
  A registry and an install tree with \<^verbatim>\<open>preact\<close>, whose submodule \<^verbatim>\<open>hooks\<close> has a
  descriptor of its own with the peer dependency \<^verbatim>\<open>preact\<close>.
\<close>

definition env_preact :: env where
  "env_preact =
     env0\<lparr>getPackageInfo := (\<lambda>n v.
              if n = ''preact'' then
                Inr \<lparr>Name = ''preact'', Version = ''10.5.0'', Main = ''dist/preact.js'',
                     Types = ''src/index.d.ts'', Typings = [], Dependencies = [],
                     PeerDependencies = []\<rparr>
              else registry0 n v),
          utils_ParseJSONFile := (\<lambda>log file.
              if file = ''/tmp/esmd-build/0f/node_modules/preact/hooks/package.json'' then
                Inr \<lparr>Name = ''preact-hooks'', Version = ''0.1.0'', Main = ''dist/hooks.js'',
                     Types = ''src/index.d.ts'', Typings = [], Dependencies = [],
                     PeerDependencies = [(''preact'', ''^10.0.0'')]\<rparr>
              else if file = ''/tmp/esmd-build/0f/node_modules/preact/package.json'' then
                Inr \<lparr>Name = ''preact'', Version = ''10.5.0'', Main = ''dist/preact.js'',
                     Types = ''src/index.d.ts'', Typings = [], Dependencies = [],
                     PeerDependencies = []\<rparr>
              else installed0 log file)\<rparr>"

text \<open>
  A store and a disk that remember: \<^verbatim>\<open>db.Get\<close> answers with the last record put under
  the alias and not deleted since, \<^verbatim>\<open>os.Stat\<close> finds the files that \<^verbatim>\<open>io.Copy\<close> has
  written, and the decoder reads back the record of \<^verbatim>\<open>left-pad\<close>.
\<close>

fun kv_scan :: "event list \<Rightarrow> string \<Rightarrow> string option" where
  "kv_scan [] a = None"
| "kv_scan (DbPut a' t v # evs) a = (if a' = a then Some v else kv_scan evs a)"
| "kv_scan (DbDelete a' # evs) a = (if a' = a then None else kv_scan evs a)"
| "kv_scan (ev # evs) a = kv_scan evs a"

fun copied :: "event list \<Rightarrow> string \<Rightarrow> bool" where
  "copied [] f = False"
| "copied (IoCopy f' c # evs) f = (f' = f \<or> copied evs f)"
| "copied (ev # evs) f = copied evs f"

definition env_kv :: env where
  "env_kv =
     env0\<lparr>db_Get := (\<lambda>log a.
              case kv_scan (rev log) a of
                None \<Rightarrow> Inl (Err PostdbErrNotFound ''record not found'')
              | Some v \<Rightarrow> Inr v),
          os_Stat := (\<lambda>log f.
              if copied log f then None
              else Some (Err OsErrNotExist ''stat: no such file or directory''))\<rparr>"

definition lib_kv :: lib where
  "lib_kv =
     lib0\<lparr>json_Unmarshal := (\<lambda>s.
        if s = encode0 left_pad_meta then (None, left_pad_meta) else json_Unmarshal lib0 s)\<rparr>"

section \<open>Properties\<close>

subsection \<open>The loop of \<^verbatim>\<open>identify\<close>\<close>

lemma identify_loop_map:
  "i \<le> length p \<Longrightarrow>
   identify_loop i p =
     take i p @
     map (\<lambda>c. if c \<in> {CHR ''/'', CHR ''-'', CHR ''@'', CHR ''.''} then CHR ''_'' else c)
       (drop i p)"
proof (induction i p rule: identify_loop.induct)
  case (1 i p)
  show ?case
  proof (cases "i < length p")
    case True
    then have d: "drop i p = p ! i # drop (Suc i) p"
      by (simp add: Cons_nth_drop_Suc)
    from True 1 show ?thesis
      by (subst identify_loop.simps) (auto simp: d take_Suc_conv_app_nth Let_def)
  next
    case False
    with 1 show ?thesis by (subst identify_loop.simps) simp
  qed
qed

subsection \<open>\<^verbatim>\<open>path.Base\<close> and the last segment of a name\<close>

lemma after_last_slash_noslash: "CHR ''/'' \<notin> set b \<Longrightarrow> after_last_slash b = b"
  by (induction b) auto

lemma after_last_slash_app:
  "CHR ''/'' \<notin> set b \<Longrightarrow> after_last_slash (d @ CHR ''/'' # b) = b"
  by (induction d) (auto simp: after_last_slash_noslash)

lemma strip_trailing_slashes_id:
  "p \<noteq> [] \<Longrightarrow> last p \<noteq> CHR ''/'' \<Longrightarrow> strip_trailing_slashes p = p"
proof (induction p)
  case Nil
  then show ?case by simp
next
  case (Cons c cs)
  show ?case
  proof (cases "cs = []")
    case True
    with Cons.prems show ?thesis by simp
  next
    case False
    with Cons have "strip_trailing_slashes cs = cs" by simp
    with False show ?thesis by (simp split: list.splits)
  qed
qed

text \<open>
  \<^verbatim>\<open>path.Base\<close> of a name without a slash is the name, and \<^verbatim>\<open>path.Base\<close> of a name that
  ends in a slash and a segment without a slash is that segment.
\<close>

lemma path_Base_plain:
  "n \<noteq> [] \<Longrightarrow> CHR ''/'' \<notin> set n \<Longrightarrow> path_Base n = n"
  by (cases n rule: rev_cases)
    (auto simp: path_Base_def strip_trailing_slashes_id after_last_slash_noslash)

lemma path_Base_last_segment:
  "b \<noteq> [] \<Longrightarrow> CHR ''/'' \<notin> set b \<Longrightarrow> path_Base (d @ ''/'' @ b) = b"
proof -
  assume b: "b \<noteq> []" "CHR ''/'' \<notin> set b"
  then have "last (d @ ''/'' @ b) \<noteq> CHR ''/''" by (cases b rule: rev_cases) auto
  then have "strip_trailing_slashes (d @ ''/'' @ b) = d @ ''/'' @ b"
    by (intro strip_trailing_slashes_id) auto
  with b show ?thesis
    by (simp add: path_Base_def after_last_slash_app)
qed

text \<open>
  The two loops of \<^verbatim>\<open>path.Base\<close> read from the end of the path: the first drops the
  slashes at the end, the second keeps what follows the last slash.
\<close>

lemma strip_trailing_slashes_rev:
  "strip_trailing_slashes p = rev (dropWhile (\<lambda>c. c = CHR ''/'') (rev p))"
proof (induction p)
  case Nil
  then show ?case by simp
next
  case (Cons c cs)
  show ?case
  proof (cases "\<forall>x\<in>set cs. x = CHR ''/''")
    case True
    then have "dropWhile (\<lambda>c. c = CHR ''/'') (rev cs) = []" by simp
    with Cons True show ?thesis by (simp add: dropWhile_append)
  next
    case False
    then have "dropWhile (\<lambda>c. c = CHR ''/'') (rev cs) \<noteq> []" by simp
    with Cons have "strip_trailing_slashes cs \<noteq> []" by simp
    then obtain r rs where r: "strip_trailing_slashes cs = r # rs"
      by (cases "strip_trailing_slashes cs") auto
    then have "strip_trailing_slashes (c # cs) = c # strip_trailing_slashes cs" by simp
    also have "\<dots> = c # rev (dropWhile (\<lambda>c. c = CHR ''/'') (rev cs))"
      using Cons by simp
    also have "\<dots> = rev (dropWhile (\<lambda>c. c = CHR ''/'') (rev (c # cs)))"
      using False by (simp add: dropWhile_append)
    finally show ?thesis .
  qed
qed

lemma after_last_slash_rev:
  "after_last_slash q = rev (takeWhile (\<lambda>c. c \<noteq> CHR ''/'') (rev q))"
  by (induction q) (auto simp: takeWhile_append)

lemma path_Base_last_path_segment:
  "path_Base n =
     (if n = [] then ''.''
      else if last_path_segment n = [] then ''/'' else last_path_segment n)"
  by (simp add: path_Base_def last_path_segment_def strip_trailing_slashes_rev
        after_last_slash_rev Let_def)

subsection \<open>The stages of the build\<close>

lemma extend_fields [simp]:
  "Name (NpmPackage.extend p (ImportMeta.fields e t)) = Name p"
  "Version (NpmPackage.extend p (ImportMeta.fields e t)) = Version p"
  "Main (NpmPackage.extend p (ImportMeta.fields e t)) = Main p"
  "Types (NpmPackage.extend p (ImportMeta.fields e t)) = Types p"
  "Typings (NpmPackage.extend p (ImportMeta.fields e t)) = Typings p"
  "Dependencies (NpmPackage.extend p (ImportMeta.fields e t)) = Dependencies p"
  "PeerDependencies (NpmPackage.extend p (ImportMeta.fields e t)) = PeerDependencies p"
  "Exports (NpmPackage.extend p (ImportMeta.fields e t)) = e"
  "TypesPath (NpmPackage.extend p (ImportMeta.fields e t)) = t"
  "NpmPackage.truncate (NpmPackage.extend p (ImportMeta.fields e t)) = p"
  by (simp_all add: NpmPackage.defs ImportMeta.defs)

lemma resolve_package_log:
  "resolve_package E pkg log il metas peers = (log', r) \<Longrightarrow>
   getPackageInfo E (name pkg) (version pkg) = Inr p \<Longrightarrow>
   log' = log @ registry_calls E pkg"
  by (auto simp: resolve_package_def registry_calls_def probe_wanted_def Let_def
           split: sum.splits if_splits)

lemma resolve_package_Inr:
  "resolve_package E pkg log il metas peers = (log', Inr res) \<Longrightarrow>
   log' = log @ registry_calls E pkg \<and> (probe_wanted E pkg \<longrightarrow> probe_tolerated E pkg) \<and>
   (\<exists>p. getPackageInfo E (name pkg) (version pkg) = Inr p)"
  by (auto simp: resolve_package_def registry_calls_def probe_wanted_def probe_tolerated_def Let_def
           split: sum.splits if_splits)

lemma resolve_package_Inl:
  "resolve_package E pkg log il metas peers = (log', Inl err) \<Longrightarrow>
   (getPackageInfo E (name pkg) (version pkg) = Inl err \<and>
    log' = log @ [GetPackageInfo (name pkg) (version pkg)]) \<or>
   (probe_wanted E pkg \<and> getPackageInfo E (''@types/'' @ name pkg) ''latest'' = Inl err \<and>
    Error_text err \<noteq> types_not_found (name pkg) \<and> log' = log @ registry_calls E pkg)"
  by (auto simp: resolve_package_def registry_calls_def probe_wanted_def probe_tolerated_def Let_def
           split: sum.splits if_splits)

lemma resolve_package_bad_probe:
  "probe_wanted E pkg \<Longrightarrow> \<not> probe_tolerated E pkg \<Longrightarrow>
   \<exists>err. getPackageInfo E (''@types/'' @ name pkg) ''latest'' = Inl err \<and>
     resolve_package E pkg log il metas peers = (log @ registry_calls E pkg, Inl err)"
  by (auto simp: resolve_package_def registry_calls_def probe_wanted_def probe_tolerated_def Let_def
           split: sum.splits if_splits)

lemma resolve_packages_Inr:
  "resolve_packages E pkgs log il metas peers = (log', Inr res) \<Longrightarrow>
   log' = log @ concat (map (registry_calls E) pkgs) \<and>
   (\<forall>pkg\<in>set pkgs. probe_wanted E pkg \<longrightarrow> probe_tolerated E pkg)"
proof (induction pkgs arbitrary: log il metas peers)
  case Nil
  then show ?case by simp
next
  case (Cons pkg pkgs)
  from Cons.prems obtain log1 il1 metas1 peers1 where
    step: "resolve_package E pkg log il metas peers = (log1, Inr (il1, metas1, peers1))" and
    rest: "resolve_packages E pkgs log1 il1 metas1 peers1 = (log', Inr res)"
    by (auto split: prod.splits sum.splits)
  from resolve_package_Inr [OF step] Cons.IH [OF rest] show ?case by simp
qed

lemma resolve_packages_Inl:
  "resolve_packages E pkgs log il metas peers = (log', Inl err) \<Longrightarrow>
   \<exists>before pkg after. pkgs = before @ pkg # after \<and>
     ((getPackageInfo E (name pkg) (version pkg) = Inl err \<and>
       log' = log @ concat (map (registry_calls E) before) @
              [GetPackageInfo (name pkg) (version pkg)]) \<or>
      (probe_wanted E pkg \<and> getPackageInfo E (''@types/'' @ name pkg) ''latest'' = Inl err \<and>
       Error_text err \<noteq> types_not_found (name pkg) \<and>
       log' = log @ concat (map (registry_calls E) (before @ [pkg]))))"
proof (induction pkgs arbitrary: log il metas peers)
  case Nil
  then show ?case by simp
next
  case (Cons pkg pkgs)
  show ?case
  proof (cases "resolve_package E pkg log il metas peers")
    case (Pair log1 r)
    show ?thesis
    proof (cases r)
      case (Inl e)
      with Pair Cons.prems have "e = err" "log1 = log'" by auto
      with Pair Inl resolve_package_Inl [of E pkg log il metas peers log' err]
      show ?thesis by (intro exI [of _ "[]"] exI [of _ pkg] exI [of _ pkgs]) auto
    next
      case (Inr res1)
      obtain il1 metas1 peers1 where res1: "res1 = (il1, metas1, peers1)" by (cases res1) auto
      with Pair Inr Cons.prems have
        rest: "resolve_packages E pkgs log1 il1 metas1 peers1 = (log', Inl err)" by simp
      from Pair Inr res1 resolve_package_Inr [of E pkg log il metas peers log1 res1]
      have log1: "log1 = log @ registry_calls E pkg" by simp
      from Cons.IH [OF rest] obtain before p after where
        "pkgs = before @ p # after" and
        "(getPackageInfo E (name p) (version p) = Inl err \<and>
           log' = log1 @ concat (map (registry_calls E) before) @
              [GetPackageInfo (name p) (version p)]) \<or>
         (probe_wanted E p \<and> getPackageInfo E (''@types/'' @ name p) ''latest'' = Inl err \<and>
           Error_text err \<noteq> types_not_found (name p) \<and>
           log' = log1 @ concat (map (registry_calls E) (before @ [p])))" by blast
      with log1 show ?thesis
        by (intro exI [of _ "pkg # before"] exI [of _ p] exI [of _ after]) auto
    qed
  qed
qed

lemma resolve_packages_bad_probe:
  "pkg \<in> set pkgs \<Longrightarrow> probe_wanted E pkg \<Longrightarrow> \<not> probe_tolerated E pkg \<Longrightarrow>
   \<exists>log' err. resolve_packages E pkgs log il metas peers = (log', Inl err)"
proof (induction pkgs arbitrary: log il metas peers)
  case Nil
  then show ?case by simp
next
  case (Cons q pkgs)
  show ?case
  proof (cases "resolve_package E q log il metas peers")
    case (Pair log1 r)
    show ?thesis
    proof (cases r)
      case (Inl e)
      with Pair show ?thesis by simp
    next
      case (Inr res1)
      obtain il1 metas1 peers1 where res1: "res1 = (il1, metas1, peers1)" by (cases res1) auto
      have "pkg \<noteq> q"
      proof
        assume "pkg = q"
        with resolve_package_bad_probe [OF Cons.prems(2,3), of log il metas peers] Pair Inr
        show False by auto
      qed
      with Cons.prems have "pkg \<in> set pkgs" by simp
      from Cons.IH [OF this Cons.prems(2,3), of log1 il1 metas1 peers1] Pair Inr res1
      show ?thesis by simp
    qed
  qed
qed

lemma persist_Inr:
  "persist E L storageDir bid sgl metas js log = (log', Inr ret) \<Longrightarrow>
   ret = \<lparr>buildID = bid, importMeta = metas, single = sgl\<rparr>"
  by (auto simp: persist_def Let_def split: option.splits)

lemma rebuild_Inr_cases:
  assumes "rebuild E L storageDir options sgl pkgs bid log = Some (log', Inr ret)"
  shows "\<exists>log1 installList metas peers installList1 indep buildDir log3 metas1 indep1 sis log4.
           resolve_packages E pkgs log (map (\<lambda>pkg. name pkg @ ''@'' @ version pkg) pkgs) [] [] =
             (log1, Inr (installList, metas, peers)) \<and>
           classify sgl pkgs metas peers installList [] = (installList1, indep) \<and>
           buildDir = path_Join L [os_TempDir E, ''esmd-build'', rs_Hex_String E log1] \<and>
           install_and_inspect E L storageDir options sgl pkgs buildDir installList1 metas indep
             (log1 @ [EnsureDir buildDir]) = (log3, Inr (metas1, indep1, sis)) \<and>
           bundle_and_save E L storageDir options sgl pkgs bid buildDir metas1 indep1 sis log3 =
             Some (log4, Inr ret) \<and>
           log' = log4 @ [OsRemoveAll buildDir]"
  using assms
  by (auto simp: rebuild_def Let_def split: prod.splits sum.splits)

lemma install_and_inspect_Inr_cases:
  assumes "install_and_inspect E L storageDir options sgl pkgs buildDir installList metas indep log =
             (log', Inr (metas2, indep1, sis))"
  shows "\<exists>log2 log3 log4 metas1.
           os_Chdir E log buildDir = None \<and>
           yarnAdd E L installList (log @ [OsChdir buildDir]) = (log2, None) \<and>
           stage_submodule E L sgl pkgs buildDir indep log2 = (log3, Inr (indep1, sis)) \<and>
           introspect E L options pkgs buildDir metas log3 = (log4, Inr metas1) \<and>
           stage_types E L storageDir buildDir sis pkgs metas1 log4 = (log', Inr metas2)"
  using assms
  by (auto simp: install_and_inspect_def Let_def split: prod.splits sum.splits option.splits)

lemma bundle_and_save_Inr_cases:
  assumes "bundle_and_save E L storageDir options sgl pkgs bid buildDir metas indep sis log =
             Some (log', Inr ret)"
  shows "\<exists>log2 indep1 externals log3 result contents other.
           ioutil_WriteFile E log (path_Join L [buildDir, ''bundle.js'']) (bundle_js sgl sis pkgs) = None \<and>
           resolve_externals E L buildDir (map fst indep) indep []
             (log @ [WriteFile (path_Join L [buildDir, ''bundle.js'']) (bundle_js sgl sis pkgs)]) =
             (log2, Inr (indep1, externals)) \<and>
           esbuild_loop E L (esbuild_options options externals) [] log2 = Some (log3, Inr result) \<and>
           OutputFiles result = contents # other \<and>
           persist E L storageDir bid sgl metas (artifact L options pkgs indep1 contents) log3 =
             (log', Inr ret)"
  using assms
  by (auto simp: bundle_and_save_def Let_def split: prod.splits sum.splits option.splits list.splits)

lemma rebuild_ret:
  "rebuild E L storageDir options sgl pkgs bid log = Some (log', Inr ret) \<Longrightarrow>
   buildID ret = bid \<and> single ret = sgl"
  by (auto dest!: rebuild_Inr_cases bundle_and_save_Inr_cases persist_Inr)

lemma build_Inr_cases:
  assumes "build E L storageDir options log = Some (pkgs, log', Inr ret)"
  shows "packages options \<noteq> [] \<and> pkgs = fst (derive_buildID L options) \<and>
         buildID ret = snd (derive_buildID L options) \<and>
         single ret = (length (packages options) = 1) \<and>
         (\<exists>log1.
            (cache_lookup E L storageDir (snd (derive_buildID L options)) log =
               (log1, Inr (Hit (importMeta ret))) \<and> log' = log1) \<or>
            (cache_lookup E L storageDir (snd (derive_buildID L options)) log = (log1, Inr Miss) \<and>
             rebuild E L storageDir options (length (packages options) = 1) pkgs
               (snd (derive_buildID L options)) log1 = Some (log', Inr ret)))"
  using assms rebuild_ret
  by (fastforce simp: build_def Let_def split: if_splits prod.splits sum.splits cache.splits)

lemma bundler_calls_append [simp]:
  "bundler_calls (xs @ ys) = bundler_calls xs @ bundler_calls ys"
  by (induction xs rule: bundler_calls.induct) auto

lemma written_files_append [simp]:
  "written_files (xs @ ys) = written_files xs @ written_files ys"
  by (induction xs rule: written_files.induct) auto

lemma installs_append [simp]:
  "installs (xs @ ys) = installs xs @ installs ys"
  by (induction xs rule: installs.induct) auto

lemma registry_requests_append [simp]:
  "registry_requests (xs @ ys) = registry_requests xs @ registry_requests ys"
  by (induction xs rule: registry_requests.induct) auto

lemma registry_requests_calls [simp]:
  "registry_requests (registry_calls E pkg) = registry_calls E pkg"
  by (simp add: registry_calls_def)

lemma registry_requests_concat_calls [simp]:
  "registry_requests (concat (map (registry_calls E) pkgs)) = concat (map (registry_calls E) pkgs)"
  by (induction pkgs) auto

lemma other_registry_calls [simp]:
  "bundler_calls (registry_calls E pkg) = []"
  "written_files (registry_calls E pkg) = []"
  "installs (registry_calls E pkg) = []"
  by (simp_all add: registry_calls_def)

lemma other_concat_registry_calls [simp]:
  "bundler_calls (concat (map (registry_calls E) pkgs)) = []"
  "written_files (concat (map (registry_calls E) pkgs)) = []"
  "installs (concat (map (registry_calls E) pkgs)) = []"
  by (induction pkgs) auto


lemma yarnAdd_calls:
  "yarnAdd E L pkgs log = (log', r) \<Longrightarrow>
   bundler_calls log' = bundler_calls log \<and> written_files log' = written_files log \<and>
   registry_requests log' = registry_requests log \<and>
   installs log' = installs log @ (if pkgs = [] then [] else [''add'' # pkgs])"
  by (auto simp: yarnAdd_def Let_def split: sum.splits if_splits)

lemma stage_submodule_calls:
  "stage_submodule E L sgl pkgs buildDir indep log = (log', r) \<Longrightarrow>
   bundler_calls log' = bundler_calls log \<and> written_files log' = written_files log \<and>
   installs log' = installs log \<and> registry_requests log' = registry_requests log"
  by (auto simp: stage_submodule_def Let_def split: sum.splits option.splits if_splits)

lemma introspect_calls:
  "introspect E L options pkgs buildDir metas log = (log', r) \<Longrightarrow>
   bundler_calls log' = bundler_calls log \<and>
   written_files log' = written_files log @ [(path_Join L [buildDir, ''peer.js''], peer_js pkgs)] \<and>
   installs log' = installs log \<and> registry_requests log' = registry_requests log"
  by (auto simp: introspect_def Let_def split: sum.splits option.splits prod.splits if_splits)

lemma stage_types_package_calls:
  "stage_types_package E L storageDir buildDir sis pkg metas log = (log', r) \<Longrightarrow>
   bundler_calls log' = bundler_calls log \<and> written_files log' = written_files log \<and>
   installs log' = installs log \<and> registry_requests log' = registry_requests log"
  by (auto simp: stage_types_package_def Let_def
           split: sum.splits option.splits prod.splits if_splits)

lemma stage_types_calls:
  "stage_types E L storageDir buildDir sis pkgs metas log = (log', r) \<Longrightarrow>
   bundler_calls log' = bundler_calls log \<and> written_files log' = written_files log \<and>
   installs log' = installs log \<and> registry_requests log' = registry_requests log"
proof (induction pkgs arbitrary: metas log)
  case Nil
  then show ?case by simp
next
  case (Cons pkg pkgs)
  show ?case
  proof (cases "stage_types_package E L storageDir buildDir sis pkg metas log")
    case (Pair log1 r1)
    note step = stage_types_package_calls [OF Pair]
    show ?thesis
    proof (cases r1)
      case (Inl e)
      with Pair Cons.prems step show ?thesis by simp
    next
      case (Inr metas1)
      with Pair Cons.prems have "stage_types E L storageDir buildDir sis pkgs metas1 log1 = (log', r)"
        by simp
      from Cons.IH [OF this] step show ?thesis by simp
    qed
  qed
qed

lemma resolve_externals_calls:
  "resolve_externals E L buildDir ns indep externals log = (log', r) \<Longrightarrow>
   bundler_calls log' = bundler_calls log \<and> written_files log' = written_files log \<and>
   installs log' = installs log \<and> registry_requests log' = registry_requests log"
  by (induction ns arbitrary: indep externals log)
     (auto simp: Let_def split: sum.splits)

lemma persist_calls:
  "persist E L storageDir bid sgl metas js log = (log', r) \<Longrightarrow>
   bundler_calls log' = bundler_calls log \<and> written_files log' = written_files log \<and>
   installs log' = installs log \<and> registry_requests log' = registry_requests log"
  by (auto simp: persist_def Let_def split: option.splits)

lemma set_add_set [simp]: "set (set_add n ns) = insert n (set ns)"
  by (auto simp: set_add_def)

lemma esbuild_loop_calls:
  assumes "esbuild_loop E L opts seen log = Some (log', r)"
  shows "\<exists>names. distinct names \<and> set names \<inter> set seen = {} \<and> [] \<notin> set names \<and>
           installs log' = installs log @ map (\<lambda>m. [''add'', m]) names \<and>
           (bundler_calls log' = bundler_calls log @ replicate (Suc (length names)) opts \<or>
            names \<noteq> [] \<and> (\<exists>e. r = Inl e) \<and>
            bundler_calls log' = bundler_calls log @ replicate (length names) opts) \<and>
           written_files log' = written_files log \<and>
           registry_requests log' = registry_requests log"
proof -
  define y where "y = (log', r)"
  with assms have "esbuild_loop E L opts seen log = Some y" by simp
  then have "\<exists>names. distinct names \<and> set names \<inter> set seen = {} \<and> [] \<notin> set names \<and>
           installs (fst y) = installs log @ map (\<lambda>m. [''add'', m]) names \<and>
           (bundler_calls (fst y) = bundler_calls log @ replicate (Suc (length names)) opts \<or>
            names \<noteq> [] \<and> (\<exists>e. snd y = Inl e) \<and>
            bundler_calls (fst y) = bundler_calls log @ replicate (length names) opts) \<and>
           written_files (fst y) = written_files log \<and>
           registry_requests (fst y) = registry_requests log"
  proof (induction E L opts seen log y rule: esbuild_loop.raw_induct [rotated 1, consumes 1])
    case (1 loop E L opts seen log y)
    let ?result = "api_Build E log opts"
    let ?log1 = "log @ [ApiBuild opts]"
    let ?fe = "Errors ?result ! 0"
    let ?m = "strings_Split ?fe dquote ! 1"
    show ?case
    proof (cases "0 < length (Errors ?result) \<and> strings_HasPrefix ?fe could_not_resolve \<and>
                  ?m \<noteq> [] \<and> ?m \<notin> set seen")
      case False
      have "fst y = ?log1"
      proof (cases "0 < length (Errors ?result)")
        case True
        with False have nc: "\<not> (strings_HasPrefix ?fe could_not_resolve \<and>
                  ?m \<noteq> [] \<and> ?m \<notin> set seen)" by simp
        from 1(2) True nc
        have "Some (?log1, Inl (errors_New (''esbuild: '' @ ?fe))) = Some y"
          unfolding Let_def by (simp only: if_P if_not_P if_True if_False simp_thms)
        then show ?thesis by auto
      next
        case False
        from 1(2) False have "Some (?log1, Inr ?result) = Some y"
          unfolding Let_def by (simp only: if_P if_not_P if_True if_False simp_thms)
        then show ?thesis by auto
      qed
      then show ?thesis
        by (intro exI [of _ "[]"]) simp
    next
      case True
      obtain log2 res where yarn: "yarnAdd E L [?m] ?log1 = (log2, res)"
        by (cases "yarnAdd E L [?m] ?log1") auto
      note yc = yarnAdd_calls [OF yarn]
      from True have m: "[] \<noteq> ?m" "?m \<notin> set seen" by auto
      show ?thesis
      proof (cases res)
        case (Some err)
        from True have c: "0 < length (Errors ?result)"
          "strings_HasPrefix ?fe could_not_resolve \<and> ?m \<noteq> [] \<and> ?m \<notin> set seen"
          by simp_all
        from 1(2) c have "(case yarnAdd E L [?m] ?log1 of
              (log2, None) \<Rightarrow> loop E L opts (set_add ?m seen) log2
            | (log2, Some err) \<Rightarrow> Some (log2, Inl err)) = Some y"
          unfolding Let_def by (simp only: if_P if_not_P if_True if_False simp_thms)
        with Some yarn have "y = (log2, Inl err)" by simp
        with yc m show ?thesis
          by (intro exI [of _ "[?m]"]) simp
      next
        case None
        from True have c: "0 < length (Errors ?result)"
          "strings_HasPrefix ?fe could_not_resolve \<and> ?m \<noteq> [] \<and> ?m \<notin> set seen"
          by simp_all
        from 1(2) c have "(case yarnAdd E L [?m] ?log1 of
              (log2, None) \<Rightarrow> loop E L opts (set_add ?m seen) log2
            | (log2, Some err) \<Rightarrow> Some (log2, Inl err)) = Some y"
          unfolding Let_def by (simp only: if_P if_not_P if_True if_False simp_thms)
        with None yarn have "loop E L opts (set_add ?m seen) log2 = Some y" by simp
        from 1(1) [OF this] obtain names where
          all: "distinct names \<and> set names \<inter> set (set_add ?m seen) = {} \<and> [] \<notin> set names \<and>
            installs (fst y) = installs log2 @ map (\<lambda>m. [''add'', m]) names \<and>
            (bundler_calls (fst y) = bundler_calls log2 @ replicate (Suc (length names)) opts \<or>
             names \<noteq> [] \<and> (\<exists>e. snd y = Inl e) \<and>
             bundler_calls (fst y) = bundler_calls log2 @ replicate (length names) opts) \<and>
            written_files (fst y) = written_files log2 \<and>
            registry_requests (fst y) = registry_requests log2" by (rule exE)
        then have names: "distinct names" "set names \<inter> set (set_add ?m seen) = {}" "[] \<notin> set names"
            "installs (fst y) = installs log2 @ map (\<lambda>m. [''add'', m]) names"
            "bundler_calls (fst y) = bundler_calls log2 @ replicate (Suc (length names)) opts \<or>
             names \<noteq> [] \<and> (\<exists>e. snd y = Inl e) \<and>
             bundler_calls (fst y) = bundler_calls log2 @ replicate (length names) opts"
            "written_files (fst y) = written_files log2"
            "registry_requests (fst y) = registry_requests log2"
          by simp_all
        from names(2) have "?m \<notin> set names" by auto
        moreover from names(2) have "set names \<inter> set seen = {}" by auto
        moreover from names(4) yc
        have "installs (fst y) = installs log @ map (\<lambda>m. [''add'', m]) (?m # names)" by simp
        moreover from names(5) yc
        have "bundler_calls (fst y) = bundler_calls log @ replicate (Suc (length (?m # names))) opts \<or>
              (\<exists>e. snd y = Inl e) \<and>
              bundler_calls (fst y) = bundler_calls log @ replicate (length (?m # names)) opts"
          by auto
        moreover from names(6,7) yc
        have "written_files (fst y) = written_files log"
          "registry_requests (fst y) = registry_requests log" by simp_all
        ultimately show ?thesis using names(1,3) m
          by (intro exI [of _ "?m # names"]) simp
      qed
    qed
  qed
  then show ?thesis by (simp add: y_def)
qed

lemma esbuild_loop_Inr_calls:
  assumes "esbuild_loop E L opts seen log = Some (log', Inr result)"
  shows "\<exists>n. bundler_calls log' = bundler_calls log @ replicate (Suc n) opts"
  using esbuild_loop_calls [OF assms] by auto

lemma fold_set_add_set [simp]: "set (fold set_add ns acc) = set acc \<union> set ns"
  by (induction ns arbitrary: acc) auto

lemma update_keys_set [simp]: "fst ` set (AList.update k v al) = insert k (fst ` set al)"
  by (induction al) auto

lemma fold_update_keys [simp]:
  "fst ` set (fold (\<lambda>n. AList.update n v) ns al) = fst ` set al \<union> set ns"
  by (induction ns arbitrary: al) auto

lemma resolve_package_result:
  "resolve_package E pkg log il metas peers = (log', Inr (il1, metas1, peers1)) \<Longrightarrow>
   set peers1 = set peers \<union> peer_names E pkg \<and>
   fst ` set metas1 = insert (ImportPath pkg) (fst ` set metas)"
  by (clarsimp simp: resolve_package_def peer_names_def Let_def Un_commute
        split: sum.splits if_splits)

lemma resolve_packages_result:
  "resolve_packages E pkgs log il metas peers = (log', Inr (il1, metas1, peers1)) \<Longrightarrow>
   set peers1 = set peers \<union> (\<Union>pkg\<in>set pkgs. peer_names E pkg) \<and>
   fst ` set metas1 = fst ` set metas \<union> ImportPath ` set pkgs"
proof (induction pkgs arbitrary: log il metas peers)
  case Nil
  then show ?case by simp
next
  case (Cons pkg pkgs)
  from Cons.prems obtain log1 il2 metas2 peers2 where
    step: "resolve_package E pkg log il metas peers = (log1, Inr (il2, metas2, peers2))" and
    rest: "resolve_packages E pkgs log1 il2 metas2 peers2 = (log', Inr (il1, metas1, peers1))"
    by (auto split: prod.splits sum.splits)
  from resolve_package_result [OF step] Cons.IH [OF rest] show ?case by auto
qed

lemma classify_result:
  "classify sgl pkgs metas peers il indep = (il1, indep1) \<Longrightarrow>
   il1 = il @ filter (independent_of pkgs metas) peers \<and>
   (if sgl then fst ` set indep1 = fst ` set indep \<union> set peers else indep1 = indep)"
proof (induction peers arbitrary: il indep)
  case Nil
  then show ?case by simp
next
  case (Cons a peers)
  from Cons.prems have
    "classify sgl pkgs metas peers
       (if independent_of pkgs metas a then il @ [a] else il)
       (if sgl then AList.update a ''latest'' indep else indep) = (il1, indep1)"
    by simp
  from Cons.IH [OF this] show ?case by (auto split: if_splits)
qed

lemma stage_submodule_result:
  "stage_submodule E L sgl pkgs buildDir indep log = (log', Inr (indep1, sis)) \<Longrightarrow>
   (case sis of
      None \<Rightarrow> indep1 = indep
    | Some sub \<Rightarrow>
        sgl \<and> submodule (pkgs ! 0) \<noteq> [] \<and>
        fst ` set indep1 = fst ` set indep \<union> fst ` set (PeerDependencies sub) \<and>
        utils_ParseJSONFile E log
          (path_Join L [buildDir, ''node_modules'', name (pkgs ! 0), submodule (pkgs ! 0),
                        ''package.json'']) = Inr sub)"
  by (clarsimp simp: stage_submodule_def Let_def split: if_splits sum.splits option.splits)

lemma resolve_externals_result:
  "resolve_externals E L buildDir ns indep externals log = (log', Inr (indep1, externals1)) \<Longrightarrow>
   externals1 = externals @ ns \<and> fst ` set indep1 = fst ` set indep \<union> set ns"
proof (induction ns arbitrary: indep externals log)
  case Nil
  then show ?case by simp
next
  case (Cons n ns)
  from Cons.prems obtain p :: NpmPackage where
    "resolve_externals E L buildDir ns (AList.update n (Version p) indep) (externals @ [n])
       (log @ [ParseJSONFile (path_Join L [buildDir, ''node_modules'', n, ''package.json''])]) =
     (log', Inr (indep1, externals1))"
    by (auto simp: Let_def split: sum.splits)
  from Cons.IH [OF this] show ?case by auto
qed

lemma merge_exports_keys [simp]: "fst ` set (merge_exports m metas) = fst ` set metas"
proof -
  have "fst ` set (fold (\<lambda>(n, meta) im.
             case map_of im n of
               Some meta' \<Rightarrow> AList.update n (meta'\<lparr>Exports := Exports meta\<rparr>) im
             | None \<Rightarrow> im) m metas) = fst ` set metas" for metas :: importMetaMap
  proof (induction m arbitrary: metas)
    case Nil
    then show ?case by simp
  next
    case (Cons a m)
    obtain n meta where a: "a = (n, meta)" by (cases a) auto
    show ?case
    proof (cases "map_of metas n")
      case None
      with a Cons show ?thesis by simp
    next
      case (Some meta')
      then have "n \<in> fst ` set metas" by (force dest: map_of_SomeD)
      with a Some Cons show ?thesis by (auto simp: insert_absorb)
    qed
  qed
  then show ?thesis by (simp add: merge_exports_def)
qed

lemma introspect_keys:
  "introspect E L options pkgs buildDir metas log = (log', Inr metas1) \<Longrightarrow>
   fst ` set metas1 = fst ` set metas"
  by (clarsimp simp: introspect_def Let_def split: option.splits sum.splits prod.splits)

lemma stage_types_package_keys:
  "stage_types_package E L storageDir buildDir sis pkg metas log = (log', Inr metas1) \<Longrightarrow>
   fst ` set metas1 = fst ` set metas"
  by (clarsimp simp: stage_types_package_def Let_def split: option.splits sum.splits prod.splits if_splits)
     (force dest: map_of_SomeD)+

lemma stage_types_keys:
  "stage_types E L storageDir buildDir sis pkgs metas log = (log', Inr metas1) \<Longrightarrow>
   fst ` set metas1 = fst ` set metas"
proof (induction pkgs arbitrary: metas log)
  case Nil
  then show ?case by simp
next
  case (Cons pkg pkgs)
  from Cons.prems obtain log1 metas2 where
    step: "stage_types_package E L storageDir buildDir sis pkg metas log = (log1, Inr metas2)" and
    rest: "stage_types E L storageDir buildDir sis pkgs metas2 log1 = (log', Inr metas1)"
    by (auto split: prod.splits sum.splits)
  from stage_types_package_keys [OF step] Cons.IH [OF rest] show ?case by simp
qed

lemma resolve_packages_found:
  "resolve_packages E pkgs log il metas peers = (log', Inr res) \<Longrightarrow>
   \<forall>pkg\<in>set pkgs. \<exists>p. getPackageInfo E (name pkg) (version pkg) = Inr p"
proof (induction pkgs arbitrary: log il metas peers)
  case Nil
  then show ?case by simp
next
  case (Cons pkg pkgs)
  from Cons.prems obtain log1 il1 metas1 peers1 where
    step: "resolve_package E pkg log il metas peers = (log1, Inr (il1, metas1, peers1))" and
    rest: "resolve_packages E pkgs log1 il1 metas1 peers1 = (log', Inr res)"
    by (auto split: prod.splits sum.splits)
  from resolve_package_Inr [OF step] Cons.IH [OF rest] show ?case by simp
qed

lemma esbuild_loop_other_calls:
  assumes "esbuild_loop E L opts seen log = Some (log', r)"
  shows "written_files log' = written_files log \<and> registry_requests log' = registry_requests log"
  using esbuild_loop_calls [OF assms] by auto

lemma rebuild_success:
  assumes "rebuild E L storageDir options sgl pkgs bid log = Some (log', Inr ret)"
  shows "\<exists>sis externals n buildDir.
      fst ` set (importMeta ret) = ImportPath ` set pkgs \<and>
      set externals =
        (if sgl then (\<Union>pkg\<in>set pkgs. peer_names E pkg) else {}) \<union>
        (case sis of None \<Rightarrow> {} | Some sub \<Rightarrow> fst ` set (PeerDependencies sub)) \<and>
      (case sis of
         None \<Rightarrow> True
       | Some sub \<Rightarrow> sgl \<and> submodule (pkgs ! 0) \<noteq> [] \<and>
           (\<exists>logx. utils_ParseJSONFile E logx
              (path_Join L [buildDir, ''node_modules'', name (pkgs ! 0), submodule (pkgs ! 0),
                            ''package.json'']) = Inr sub)) \<and>
      bundler_calls log' =
        bundler_calls log @ replicate (Suc n) (esbuild_options options externals) \<and>
      written_files log' =
        written_files log @
        [(path_Join L [buildDir, ''peer.js''], peer_js pkgs),
         (path_Join L [buildDir, ''bundle.js''], bundle_js sgl sis pkgs)] \<and>
      registry_requests log' = registry_requests log @ concat (map (registry_calls E) pkgs) \<and>
      (\<forall>pkg\<in>set pkgs. \<exists>p. getPackageInfo E (name pkg) (version pkg) = Inr p)"
proof -
  from rebuild_Inr_cases [OF assms] obtain log1 installList metas peers installList1 indep
      buildDir log3 metas1 indep1 sis log4 where
    res: "resolve_packages E pkgs log (map (\<lambda>pkg. name pkg @ ''@'' @ version pkg) pkgs) [] [] =
             (log1, Inr (installList, metas, peers))" and
    cls: "classify sgl pkgs metas peers installList [] = (installList1, indep)" and
    ins: "install_and_inspect E L storageDir options sgl pkgs buildDir installList1 metas indep
             (log1 @ [EnsureDir buildDir]) = (log3, Inr (metas1, indep1, sis))" and
    bun: "bundle_and_save E L storageDir options sgl pkgs bid buildDir metas1 indep1 sis log3 =
             Some (log4, Inr ret)" and
    log': "log' = log4 @ [OsRemoveAll buildDir]"
    by blast
  from install_and_inspect_Inr_cases [OF ins] obtain log2 log3a log4a metas1a where
    chd: "os_Chdir E (log1 @ [EnsureDir buildDir]) buildDir = None" and
    yrn: "yarnAdd E L installList1 (log1 @ [EnsureDir buildDir] @ [OsChdir buildDir]) = (log2, None)" and
    sub: "stage_submodule E L sgl pkgs buildDir indep log2 = (log3a, Inr (indep1, sis))" and
    itr: "introspect E L options pkgs buildDir metas log3a = (log4a, Inr metas1a)" and
    sty: "stage_types E L storageDir buildDir sis pkgs metas1a log4a = (log3, Inr metas1)"
    by auto
  from bundle_and_save_Inr_cases [OF bun] obtain log5 indep2 externals log6 result contents other
    where
    ext: "resolve_externals E L buildDir (map fst indep1) indep1 []
             (log3 @ [WriteFile (path_Join L [buildDir, ''bundle.js'']) (bundle_js sgl sis pkgs)]) =
             (log5, Inr (indep2, externals))" and
    esb: "esbuild_loop E L (esbuild_options options externals) [] log5 = Some (log6, Inr result)" and
    per: "persist E L storageDir bid sgl metas1 (artifact L options pkgs indep2 contents) log6 =
             (log4, Inr ret)"
    by blast
  from esbuild_loop_Inr_calls [OF esb] obtain n where
    n: "bundler_calls log6 = bundler_calls log5 @ replicate (Suc n) (esbuild_options options externals)"
    by blast
  note r1 = resolve_packages_result [OF res] resolve_packages_Inr [OF res]
  note c1 = classify_result [OF cls]
  note s1 = stage_submodule_result [OF sub]
  note e1 = resolve_externals_result [OF ext]
  have keys: "fst ` set (importMeta ret) = ImportPath ` set pkgs"
    using persist_Inr [OF per] stage_types_keys [OF sty] introspect_keys [OF itr] r1(1) by simp
  have exts: "set externals =
        (if sgl then (\<Union>pkg\<in>set pkgs. peer_names E pkg) else {}) \<union>
        (case sis of None \<Rightarrow> {} | Some sub \<Rightarrow> fst ` set (PeerDependencies sub))"
    using e1 s1 c1 r1(1) by (auto split: option.splits if_splits)
  have subm: "(case sis of
         None \<Rightarrow> True
       | Some sub \<Rightarrow> sgl \<and> submodule (pkgs ! 0) \<noteq> [] \<and>
           (\<exists>logx. utils_ParseJSONFile E logx
              (path_Join L [buildDir, ''node_modules'', name (pkgs ! 0), submodule (pkgs ! 0),
                            ''package.json'']) = Inr sub))"
    using s1 by (auto split: option.splits)
  have calls: "bundler_calls log' =
        bundler_calls log @ replicate (Suc n) (esbuild_options options externals)"
    "written_files log' =
        written_files log @
        [(path_Join L [buildDir, ''peer.js''], peer_js pkgs),
         (path_Join L [buildDir, ''bundle.js''], bundle_js sgl sis pkgs)]"
    "registry_requests log' = registry_requests log @ concat (map (registry_calls E) pkgs)"
    using log' persist_calls [OF per] n esbuild_loop_other_calls [OF esb] resolve_externals_calls [OF ext]
      stage_types_calls [OF sty] introspect_calls [OF itr] stage_submodule_calls [OF sub]
      yarnAdd_calls [OF yrn] r1(2)
    by simp_all
  from keys exts subm calls resolve_packages_found [OF res] show ?thesis by blast
qed


lemma derive_single:
  "length (packages options) = 1 \<Longrightarrow> fst (derive_buildID L options) = packages options"
  by (simp add: derive_buildID_def Let_def)

lemma derive_bundle:
  "length (packages options) \<noteq> 1 \<Longrightarrow>
   fst (derive_buildID L options) = sort_Sort L (packages options)"
  by (simp add: derive_buildID_def Let_def)

lemma build_result_buildID:
  "build E L storageDir options log = Some (pkgs, log', Inr ret) \<Longrightarrow>
   buildID ret = snd (derive_buildID L options)"
  using build_Inr_cases by blast

text \<open>
  A failure of the resolution of the packages is the failure of the build.
\<close>

lemma rebuild_resolve_error:
  assumes "resolve_packages E pkgs log (map (\<lambda>pkg. name pkg @ ''@'' @ version pkg) pkgs) [] [] =
             (log', Inl err)"
  shows "rebuild E L storageDir options sgl pkgs bid log = Some (log', Inl err)"
  using assms by (simp add: rebuild_def)

subsection \<open>How the log grows\<close>

text \<open>
  Every stage appends its calls to the log. The descriptors are read by the staging of
  the submodule, by the staging of the declaration files and by the loop over the
  externals only.
\<close>

lemma descriptor_reads_append [simp]:
  "descriptor_reads (xs @ ys) = descriptor_reads xs @ descriptor_reads ys"
  by (induction xs rule: descriptor_reads.induct) auto

lemma descriptor_reads_registry_calls [simp]: "descriptor_reads (registry_calls E pkg) = []"
  by (simp add: registry_calls_def)

lemma descriptor_reads_concat_registry_calls [simp]:
  "descriptor_reads (concat (map (registry_calls E) pkgs)) = []"
  by (induction pkgs) auto










subsection \<open>The install list and the externals\<close>





subsection \<open>The staging of the declaration files\<close>


lemma merge_exports_fields:
  "map_option (\<lambda>m. (Types m, Typings m)) (map_of (merge_exports m metas) k) =
   map_option (\<lambda>m. (Types m, Typings m)) (map_of metas k)"
proof -
  have "map_option (\<lambda>m. (Types m, Typings m)) (map_of (fold (\<lambda>(n, meta) im.
             case map_of im n of
               Some meta' \<Rightarrow> AList.update n (meta'\<lparr>Exports := Exports meta\<rparr>) im
             | None \<Rightarrow> im) m metas) k) =
        map_option (\<lambda>m. (Types m, Typings m)) (map_of metas k)" for metas :: importMetaMap
  proof (induction m arbitrary: metas)
    case Nil
    then show ?case by simp
  next
    case (Cons a m)
    obtain n meta where a: "a = (n, meta)" by (cases a) auto
    show ?case
    proof (cases "map_of metas n")
      case None
      with a Cons show ?thesis by simp
    next
      case (Some meta')
      with a Cons show ?thesis by (auto simp: update_conv')
    qed
  qed
  then show ?thesis by (simp add: merge_exports_def)
qed

lemma introspect_fields:
  "introspect E L options pkgs buildDir metas log = (log', Inr metas1) \<Longrightarrow>
   map_option (\<lambda>m. (Types m, Typings m)) (map_of metas1 k) =
   map_option (\<lambda>m. (Types m, Typings m)) (map_of metas k)"
  by (auto simp: introspect_def Let_def merge_exports_fields
           split: option.splits sum.splits prod.splits)




subsection \<open>The order of \<^verbatim>\<open>sort.Sort\<close>\<close>

lemma sorts_set: "sorts f \<Longrightarrow> set (f xs) = set xs"
  by (metis sorts_def set_mset_mset)

lemma derive_set:
  "sorts (sort_Sort L) \<Longrightarrow> set (fst (derive_buildID L options)) = set (packages options)"
  by (cases "length (packages options) = 1") (simp_all add: derive_single derive_bundle sorts_set)

lemma sorts_sorted:
  "sorts f \<Longrightarrow> sorted (map ImportPath (f xs))"
proof -
  assume "sorts f"
  then have "sorted_wrt (\<lambda>a b. \<not> Less b a) (f xs)" by (simp add: sorts_def)
  then have "sorted_wrt (\<lambda>a b. ImportPath a \<le> ImportPath b) (f xs)"
    by (rule sorted_wrt_mono_rel [rotated]) (auto simp: Less_def)
  then show ?thesis by (simp add: sorted_map)
qed

lemma sorts_unique:
  assumes "sorts f" and "mset xs = mset ys" and "distinct (map ImportPath xs)"
  shows "f xs = f ys"
proof -
  from assms(1) have mx: "mset (f xs) = mset xs" and my: "mset (f ys) = mset ys"
    by (simp_all add: sorts_def)
  with assms(2) have m: "mset (f xs) = mset (f ys)" by simp
  from mx have "mset (map ImportPath (f xs)) = mset (map ImportPath xs)" by simp
  with assms(3) have dx: "distinct (map ImportPath (f xs))"
    by (metis mset_eq_imp_distinct_iff)
  from m have "mset (map ImportPath (f xs)) = mset (map ImportPath (f ys))" by simp
  with dx have dy: "distinct (map ImportPath (f ys))"
    by (metis mset_eq_imp_distinct_iff)
  from m have "set (map ImportPath (f xs)) = set (map ImportPath (f ys))"
    by (metis mset_map set_mset_mset)
  with dx dy sorts_sorted [OF assms(1)]
  have eq: "map ImportPath (f xs) = map ImportPath (f ys)"
    by (intro sorted_distinct_set_unique) auto
  from m have "set (f xs) = set (f ys)" by (metis set_mset_mset)
  with dx have "inj_on ImportPath (set (f xs) \<union> set (f ys))"
    by (simp add: distinct_map)
  with eq show ?thesis by (simp add: inj_on_map_eq_map)
qed

lemma insert_left_mset [simp]: "mset (insert_left x ys) = add_mset x (mset ys)"
  by (induction ys) auto

lemma insert_left_set [simp]: "set (insert_left x ys) = insert x (set ys)"
  by (induction ys) auto

lemma insert_left_sorted:
  "sorted_wrt (\<lambda>a b. \<not> Less a b) ys \<Longrightarrow> sorted_wrt (\<lambda>a b. \<not> Less a b) (insert_left x ys)"
  by (induction ys) (auto simp: Less_def)

lemma foldl_insert_left:
  "sorted_wrt (\<lambda>a b. \<not> Less a b) left \<Longrightarrow>
   sorted_wrt (\<lambda>a b. \<not> Less a b) (foldl (\<lambda>left x. insert_left x left) left xs) \<and>
   mset (foldl (\<lambda>left x. insert_left x left) left xs) = mset left + mset xs"
  by (induction xs arbitrary: left) (auto simp: insert_left_sorted)

lemma sorts_insertionSort: "sorts insertionSort"
  using foldl_insert_left [of "[]"]
  by (simp add: sorts_def insertionSort_def sorted_wrt_rev)

lemma sorts_lib0: "sorts (sort_Sort lib0)"
  by (simp add: lib0_def sorts_insertionSort)

lemma insertionSort_pair:
  "insertionSort [a, b] = (if Less b a then [b, a] else [a, b])"
  by (simp add: insertionSort_def)

subsection \<open>One round of the retry loop\<close>



subsection \<open>The examples, evaluated\<close>

lemmas model_defs =
  build_def rebuild_def install_and_inspect_def bundle_and_save_def derive_buildID_def
  cache_lookup_def resolve_package_def yarnAdd_def stage_submodule_def introspect_def
  stage_types_package_def persist_def esbuild_options_def getTypesPath_def
  independent_of_def types_not_found_def strings_HasPrefix_def strings_TrimSuffix_def
  path_Base_def ImportPath_def node_env_def merge_exports_def set_add_def
  errors_New_def targets_def could_not_resolve_def squote_def dquote_def
  NpmPackage.defs ImportMeta.defs

lemmas example_defs =
  model_defs env0_def lib0_def left_pad_def registry0_def installed0_def
  esbuild_loop.simps Let_def encode0_def peer_js_def bundle_js_def artifact_def identify_def
  identify_loop.simps react_dom_def react_dom_left_pad_def left_pad_meta_def left_pad_trace_def
  specifier_form_def insertionSort_def Less_def

lemma build_left_pad:
  "build env0 lib0 ''/data'' left_pad [] =
     Some (packages left_pad, left_pad_trace,
           Inr \<lparr>buildID = ''left-pad@1.3.0/es2019/left-pad'', importMeta = left_pad_meta,
                single = True\<rparr>)"
  by (simp add: example_defs)

lemmas scenario_defs =
  example_defs env_corrupt_def env_put_fails_def env_empty_name_def env_retry_def
  env_timeout_def env_kv_def lib_kv_def left_pad_sub_def react16_def react17_def scoped_foo_def
  ui_kit_def scoped_foo_dev_def preact_hooks_def env_preact_def



section \<open>The statements of the specification\<close>

subsection \<open>The externals (C1)\<close>




subsection \<open>A stored record that does not decode (C2)\<close>

text \<open>
  C2 fails on the code when the artifact exists. The stored record does not decode, the
  record is deleted, \<^verbatim>\<open>os.Stat\<close> finds the artifact, and \<^verbatim>\<open>build\<close> returns without an
  error and without a rebuild, with the empty map that the decoder left.
\<close>

theorem C2_corrupt_record_served:
  "db_Get env_corrupt [] ''left-pad@1.3.0/es2019/left-pad'' = Inr ''{'' \<and>
   fst (json_Unmarshal lib0 ''{'') = Some (Err Plain ''invalid character'') \<and>
   build env_corrupt lib0 ''/data'' left_pad [] =
     Some (packages left_pad,
           [DbGet ''left-pad@1.3.0/es2019/left-pad'',
            DbDelete ''left-pad@1.3.0/es2019/left-pad'',
            OsStat ''/data/builds/left-pad@1.3.0/es2019/left-pad.js''],
           Inr \<lparr>buildID = ''left-pad@1.3.0/es2019/left-pad'', importMeta = [], single = True\<rparr>)"
  by (simp add: scenario_defs)

text \<open>
  In general: after a failed decode and the deletion of the record, the lookup is a hit
  with whatever the decoder left when the artifact is on disk, and a miss only when the
  artifact is not there.
\<close>

lemma cache_lookup_corrupt_artifact_present:
  assumes "db_Get E log bid = Inr bytes"
    and "json_Unmarshal L bytes = (Some e, decoded)"
    and "db_Delete E (log @ [DbGet bid]) bid = None"
    and "os_Stat E (log @ [DbGet bid, DbDelete bid])
           (path_Join L [storageDir, ''builds'', bid @ ''.js'']) = None"
  shows "cache_lookup E L storageDir bid log =
           (log @ [DbGet bid, DbDelete bid,
                   OsStat (path_Join L [storageDir, ''builds'', bid @ ''.js''])],
            Inr (Hit decoded))"
  using assms by (simp add: cache_lookup_def Let_def)

lemma cache_lookup_corrupt_artifact_missing:
  assumes "db_Get E log bid = Inr bytes"
    and "json_Unmarshal L bytes = (Some e, decoded)"
    and "db_Delete E (log @ [DbGet bid]) bid = None"
    and "os_Stat E (log @ [DbGet bid, DbDelete bid])
           (path_Join L [storageDir, ''builds'', bid @ ''.js'']) = Some e'"
    and "\<not> os_IsExist e'"
    and "db_Delete E (log @ [DbGet bid, DbDelete bid,
                             OsStat (path_Join L [storageDir, ''builds'', bid @ ''.js''])]) bid =
         None"
  shows "cache_lookup E L storageDir bid log =
           (log @ [DbGet bid, DbDelete bid,
                   OsStat (path_Join L [storageDir, ''builds'', bid @ ''.js'']), DbDelete bid],
            Inr Miss)"
  using assms by (simp add: cache_lookup_def Let_def)

subsection \<open>A failure of \<^verbatim>\<open>db.Put\<close> (C3)\<close>

text \<open>
  C3 fails on the code: \<^verbatim>\<open>db.Put\<close> answers with an error after the artifact was written,
  and \<^verbatim>\<open>build\<close> returns the result without an error.
\<close>

theorem C3_put_failure_ignored:
  "db_Put env_put_fails (take 15 left_pad_trace) ''left-pad@1.3.0/es2019/left-pad'' ''bundle''
     (encode0 left_pad_meta) = Some (Err Plain ''postdb: write failed'') \<and>
   build env_put_fails lib0 ''/data'' left_pad [] =
     Some (packages left_pad, left_pad_trace,
           Inr \<lparr>buildID = ''left-pad@1.3.0/es2019/left-pad'', importMeta = left_pad_meta,
                single = True\<rparr>)"
  by (simp add: scenario_defs)

text \<open>
  In general: the outcome of the last stage does not depend on the answers of
  \<^verbatim>\<open>db.Put\<close>.
\<close>

lemma persist_ignores_Put:
  "snd (persist (E\<lparr>db_Put := put\<rparr>) L storageDir bid sgl metas js log) =
   snd (persist E L storageDir bid sgl metas js log)"
  by (simp add: persist_def Let_def split: option.splits)

subsection \<open>The retries of the bundler (C4)\<close>




subsection \<open>The identifier of a single package (C5)\<close>

text \<open>
  C5. For a request with exactly one package the build identifier is the name, \<^verbatim>\<open>@\<close>, the
  version, \<^verbatim>\<open>/\<close>, the target, \<^verbatim>\<open>/\<close> and the file name, followed by \<^verbatim>\<open>.development\<close>
  when \<^verbatim>\<open>dev\<close> is set. The file name is the submodule when it is not empty and the last
  path segment of the name otherwise; for a name that has no segment \<^verbatim>\<open>path.Base\<close>
  answers \<^verbatim>\<open>.\<close> when the name is empty and \<^verbatim>\<open>/\<close> when it consists of slashes.
\<close>

theorem C5_single_buildID:
  assumes "length (packages options) = 1"
  shows "snd (derive_buildID L options) =
           name (hd (packages options)) @ ''@'' @ version (hd (packages options)) @ ''/'' @
           target options @ ''/'' @
           (if submodule (hd (packages options)) \<noteq> [] then submodule (hd (packages options))
            else if name (hd (packages options)) = [] then ''.''
            else if last_path_segment (name (hd (packages options))) = [] then ''/''
            else last_path_segment (name (hd (packages options)))) @
           (if dev options then ''.development'' else [])"
  using assms
  by (cases "packages options")
     (auto simp: derive_buildID_def Let_def path_Base_last_path_segment)

theorem C5_single_buildID_witness:
  "length (packages scoped_foo_dev) = 1 \<and>
   snd (derive_buildID lib0 scoped_foo_dev) = ''@scope/foo@1.0.0/es2019/foo.development'' \<and>
   length (packages left_pad_sub) = 1 \<and>
   snd (derive_buildID lib0 left_pad_sub) = ''left-pad@1.3.0/es2019/left-pad'' \<and>
   length (packages react_dom) = 1 \<and>
   snd (derive_buildID lib0 react_dom) = ''react-dom@17.0.2/es2019/react-dom''"
  using C5_single_buildID [of scoped_foo_dev lib0] C5_single_buildID [of left_pad_sub lib0]
    C5_single_buildID [of react_dom lib0]
  by (simp add: scoped_foo_dev_def left_pad_sub_def react_dom_def last_path_segment_def)

subsection \<open>The identifier of a bundle and the order of the request (C6)\<close>


text \<open>
  This does not depend on the form of \<^verbatim>\<open>String()\<close> or on the hash: whenever the sort
  swaps a slice of two exactly when \<^verbatim>\<open>Less(1, 0)\<close> holds, as the insertion sort does, two
  specifiers with one import path are hashed in the order of the request.
\<close>

lemma bundle_buildID_pair:
  assumes "sort_Sort L [a, b] = (if Less b a then [b, a] else [a, b])"
    and "ImportPath a = ImportPath b"
  shows "derive_buildID L \<lparr>packages = [a, b], target = t, dev = d\<rparr> =
           ([a, b],
            ''bundle-'' @ strings_ToLower L (base32_EncodeToString L (sha1_Sum L
              (moduleSlice_String L [a, b] @ '' '' @ t @ '' '' @ fmt_bool d))))"
  using assms by (simp add: derive_buildID_def Less_def Let_def)

text \<open>
  Where the import paths of a request with more than one package are pairwise distinct,
  every rearrangement of the packages gives the same identifier, and the identifier
  starts with \<^verbatim>\<open>bundle-\<close>.
\<close>

lemma bundle_buildID_permutation:
  assumes "sorts (sort_Sort L)"
    and "length ps > 1"
    and "mset ps' = mset ps"
    and "distinct (map ImportPath ps)"
  shows "snd (derive_buildID L (options\<lparr>packages := ps'\<rparr>)) =
           snd (derive_buildID L (options\<lparr>packages := ps\<rparr>)) \<and>
         take 7 (snd (derive_buildID L (options\<lparr>packages := ps\<rparr>))) = ''bundle-''"
proof -
  from assms(3) have "length ps' = length ps" by (metis size_mset)
  with assms(2) have l: "length ps \<noteq> 1" "length ps' \<noteq> 1" by auto
  from sorts_unique [OF assms(1) assms(3) [symmetric] assms(4)]
  have "sort_Sort L ps' = sort_Sort L ps" by simp
  with l show ?thesis by (simp add: derive_buildID_def Let_def)
qed

lemma bundle_buildID_permutation_example:
  "sorts (sort_Sort lib0) \<and>
   length (packages react_dom_left_pad) > 1 \<and>
   mset (rev (packages react_dom_left_pad)) = mset (packages react_dom_left_pad) \<and>
   distinct (map ImportPath (packages react_dom_left_pad)) \<and>
   snd (derive_buildID lib0 (react_dom_left_pad\<lparr>packages := rev (packages react_dom_left_pad)\<rparr>)) =
     snd (derive_buildID lib0 react_dom_left_pad) \<and>
   take 7 (snd (derive_buildID lib0 react_dom_left_pad)) = ''bundle-''"
proof -
  have h: "length (packages react_dom_left_pad) > 1"
    "mset (rev (packages react_dom_left_pad)) = mset (packages react_dom_left_pad)"
    "distinct (map ImportPath (packages react_dom_left_pad))"
    by (simp_all add: react_dom_left_pad_def ImportPath_def)
  from bundle_buildID_permutation [OF sorts_lib0 h, of react_dom_left_pad] sorts_lib0 h
  show ?thesis by simp
qed

subsection \<open>The probe for \<^verbatim>\<open>@types\<close> (C7)\<close>

text \<open>
  C7. When the resolution of the packages succeeds, the requests to the registry are, for
  each package in order, its descriptor and then the \<^verbatim>\<open>@types\<close> probe exactly when the
  probe is wanted, and every probe was tolerated. A wanted probe that is not tolerated
  makes the resolution fail, and a failed resolution stopped at a descriptor that was not
  found or at such a probe, with its error. A package whose name starts with \<^verbatim>\<open>@\<close> is
  never probed.
\<close>

theorem C7_types_probe:
  "(resolve_packages E pkgs log il metas peers = (log', Inr res) \<longrightarrow>
      log' = log @ concat (map (registry_calls E) pkgs) \<and>
      (\<forall>pkg\<in>set pkgs. probe_wanted E pkg \<longrightarrow> probe_tolerated E pkg)) \<and>
   (pkg \<in> set pkgs \<and> probe_wanted E pkg \<and> \<not> probe_tolerated E pkg \<longrightarrow>
      (\<exists>log' err. resolve_packages E pkgs log il metas peers = (log', Inl err))) \<and>
   (resolve_packages E pkgs log il metas peers = (log', Inl err) \<longrightarrow>
      (\<exists>before pkg after. pkgs = before @ pkg # after \<and>
         (getPackageInfo E (name pkg) (version pkg) = Inl err \<and>
          log' = log @ concat (map (registry_calls E) before) @
                 [GetPackageInfo (name pkg) (version pkg)] \<or>
          probe_wanted E pkg \<and>
          getPackageInfo E (''@types/'' @ name pkg) ''latest'' = Inl err \<and>
          Error_text err \<noteq> types_not_found (name pkg) \<and>
          log' = log @ concat (map (registry_calls E) (before @ [pkg]))))) \<and>
   (strings_HasPrefix (name pkg) ''@'' \<longrightarrow>
      \<not> probe_wanted E pkg \<and>
      GetPackageInfo (''@types/'' @ name pkg) ''latest'' \<notin> set (registry_calls E pkg))"
proof (intro conjI impI)
  assume "resolve_packages E pkgs log il metas peers = (log', Inr res)"
  from resolve_packages_Inr [OF this]
  show "log' = log @ concat (map (registry_calls E) pkgs)"
    "\<forall>pkg\<in>set pkgs. probe_wanted E pkg \<longrightarrow> probe_tolerated E pkg" by simp_all
next
  assume "pkg \<in> set pkgs \<and> probe_wanted E pkg \<and> \<not> probe_tolerated E pkg"
  then show "\<exists>log' err. resolve_packages E pkgs log il metas peers = (log', Inl err)"
    using resolve_packages_bad_probe by blast
next
  assume "resolve_packages E pkgs log il metas peers = (log', Inl err)"
  from resolve_packages_Inl [OF this]
  show "\<exists>before pkg after. pkgs = before @ pkg # after \<and>
         (getPackageInfo E (name pkg) (version pkg) = Inl err \<and>
          log' = log @ concat (map (registry_calls E) before) @
                 [GetPackageInfo (name pkg) (version pkg)] \<or>
          probe_wanted E pkg \<and>
          getPackageInfo E (''@types/'' @ name pkg) ''latest'' = Inl err \<and>
          Error_text err \<noteq> types_not_found (name pkg) \<and>
          log' = log @ concat (map (registry_calls E) (before @ [pkg])))" .
next
  assume "strings_HasPrefix (name pkg) ''@''"
  then show "\<not> probe_wanted E pkg"
    by (simp add: probe_wanted_def split: sum.splits)
next
  assume a: "strings_HasPrefix (name pkg) ''@''"
  then have "\<not> probe_wanted E pkg"
    by (simp add: probe_wanted_def split: sum.splits)
  moreover have "name pkg \<noteq> ''@types/'' @ name pkg" by simp
  ultimately show "GetPackageInfo (''@types/'' @ name pkg) ''latest'' \<notin> set (registry_calls E pkg)"
    by (simp add: registry_calls_def)
qed

theorem C7_types_probe_witness:
  "resolve_packages env0 (packages left_pad) [] [''left-pad@1.3.0''] [] [] =
     ([GetPackageInfo ''left-pad'' ''1.3.0'', GetPackageInfo ''@types/left-pad'' ''latest''],
      Inr ([''left-pad@1.3.0''],
           [(''left-pad'', NpmPackage.extend
               \<lparr>Name = ''left-pad'', Version = ''1.3.0'', Main = ''index.js'', Types = [],
                Typings = [], Dependencies = [], PeerDependencies = []\<rparr>
               (ImportMeta.fields [] []))], [])) \<and>
   probe_wanted env0 (hd (packages left_pad)) \<and> probe_tolerated env0 (hd (packages left_pad)) \<and>
   hd (packages left_pad) \<in> set (packages left_pad) \<and>
   probe_wanted env_timeout (hd (packages left_pad)) \<and>
   \<not> probe_tolerated env_timeout (hd (packages left_pad)) \<and>
   resolve_packages env_timeout (packages left_pad) [] [''left-pad@1.3.0''] [] [] =
     ([GetPackageInfo ''left-pad'' ''1.3.0'', GetPackageInfo ''@types/left-pad'' ''latest''],
      Inl (Err Plain ''npm: request timed out'')) \<and>
   strings_HasPrefix (name scoped_foo) ''@'' \<and> \<not> probe_wanted env0 scoped_foo \<and>
   registry_calls env0 scoped_foo = [GetPackageInfo ''@scope/foo'' ''1.0.0'']"
proof -
  have a: "resolve_packages env0 (packages left_pad) [] [''left-pad@1.3.0''] [] [] =
     ([GetPackageInfo ''left-pad'' ''1.3.0'', GetPackageInfo ''@types/left-pad'' ''latest''],
      Inr ([''left-pad@1.3.0''],
           [(''left-pad'', NpmPackage.extend
               \<lparr>Name = ''left-pad'', Version = ''1.3.0'', Main = ''index.js'', Types = [],
                Typings = [], Dependencies = [], PeerDependencies = []\<rparr>
               (ImportMeta.fields [] []))], []))"
    by (simp add: scenario_defs)
  have b: "hd (packages left_pad) \<in> set (packages left_pad)"
    "probe_wanted env_timeout (hd (packages left_pad))"
    "\<not> probe_tolerated env_timeout (hd (packages left_pad))"
    by (simp_all add: scenario_defs probe_wanted_def probe_tolerated_def)
  have c: "resolve_packages env_timeout (packages left_pad) [] [''left-pad@1.3.0''] [] [] =
     ([GetPackageInfo ''left-pad'' ''1.3.0'', GetPackageInfo ''@types/left-pad'' ''latest''],
      Inl (Err Plain ''npm: request timed out''))"
    by (simp add: scenario_defs)
  have d: "strings_HasPrefix (name scoped_foo) ''@''"
    by (simp add: scenario_defs)
  note t1 = C7_types_probe [of env0 "packages left_pad" "[]" "[''left-pad@1.3.0'']" "[]" "[]"
      "[GetPackageInfo ''left-pad'' ''1.3.0'', GetPackageInfo ''@types/left-pad'' ''latest'']"
      _ scoped_foo]
  note t2 = C7_types_probe [of env_timeout "packages left_pad" "[]" "[''left-pad@1.3.0'']" "[]" "[]"
      "[GetPackageInfo ''left-pad'' ''1.3.0'', GetPackageInfo ''@types/left-pad'' ''latest'']"
      _ "hd (packages left_pad)" "Err Plain ''npm: request timed out''"]
  from t1 a d have "probe_wanted env0 (hd (packages left_pad)) \<longrightarrow>
      probe_tolerated env0 (hd (packages left_pad))" "\<not> probe_wanted env0 scoped_foo"
    by (simp_all add: left_pad_def)
  moreover have "probe_wanted env0 (hd (packages left_pad))"
    "registry_calls env0 scoped_foo = [GetPackageInfo ''@scope/foo'' ''1.0.0'']"
    by (simp_all add: scenario_defs probe_wanted_def registry_calls_def)
  ultimately show ?thesis using a b c d t2 by simp
qed

subsection \<open>The keys of the import metadata (C8)\<close>

text \<open>
  C8, amended. A successful build either returns the decoded map of the stored record
  (a cache hit), or a map whose keys are exactly the \<^verbatim>\<open>ImportPath()\<close>s of the requested
  specifiers. The entries of the module runtime's output never add a key.
\<close>

theorem C8_importMeta_keys:
  assumes "build E L storageDir options log = Some (pkgs, log', Inr ret)"
    and "sorts (sort_Sort L)"
  shows "(\<exists>log1. cache_lookup E L storageDir (snd (derive_buildID L options)) log =
                   (log1, Inr (Hit (importMeta ret)))) \<or>
         fst ` set (importMeta ret) = ImportPath ` set (packages options)"
proof -
  from build_Inr_cases [OF assms(1)] obtain log1 where
    pk: "pkgs = fst (derive_buildID L options)" and
    c: "cache_lookup E L storageDir (snd (derive_buildID L options)) log =
               (log1, Inr (Hit (importMeta ret))) \<or>
        rebuild E L storageDir options (length (packages options) = 1) pkgs
               (snd (derive_buildID L options)) log1 = Some (log', Inr ret)"
    by blast
  from c show ?thesis
  proof
    assume "cache_lookup E L storageDir (snd (derive_buildID L options)) log =
               (log1, Inr (Hit (importMeta ret)))"
    then show ?thesis by blast
  next
    assume "rebuild E L storageDir options (length (packages options) = 1) pkgs
               (snd (derive_buildID L options)) log1 = Some (log', Inr ret)"
    from rebuild_success [OF this] have "fst ` set (importMeta ret) = ImportPath ` set pkgs"
      by blast
    with pk derive_set [OF assms(2)] show ?thesis by simp
  qed
qed

theorem C8_importMeta_keys_witness:
  "sorts (sort_Sort lib0) \<and>
   build env0 lib0 ''/data'' left_pad [] =
     Some (packages left_pad, left_pad_trace,
           Inr \<lparr>buildID = ''left-pad@1.3.0/es2019/left-pad'', importMeta = left_pad_meta,
                single = True\<rparr>) \<and>
   fst ` set left_pad_meta = ImportPath ` set (packages left_pad)"
  using C8_importMeta_keys [OF build_left_pad sorts_lib0] sorts_lib0 build_left_pad
  by (simp add: scenario_defs)

text \<open>
  C8 as stated fails on a cache hit. The requests \<^verbatim>\<open>left-pad@1.3.0\<close> and
  \<^verbatim>\<open>left-pad@1.3.0\<close> with the submodule \<^verbatim>\<open>left-pad\<close> have the same build identifier;
  after a build of the first, a build of the second is answered from the cache with the
  key \<^verbatim>\<open>left-pad\<close>, and the import path of its specifier is \<^verbatim>\<open>left-pad/left-pad\<close>.
\<close>

theorem C8_counterexample:
  "build env_kv lib_kv ''/data'' left_pad [] =
     Some (packages left_pad, left_pad_trace,
           Inr \<lparr>buildID = ''left-pad@1.3.0/es2019/left-pad'', importMeta = left_pad_meta,
                single = True\<rparr>) \<and>
   build env_kv lib_kv ''/data'' left_pad_sub left_pad_trace =
     Some (packages left_pad_sub,
           left_pad_trace @
           [DbGet ''left-pad@1.3.0/es2019/left-pad'',
            OsStat ''/data/builds/left-pad@1.3.0/es2019/left-pad.js''],
           Inr \<lparr>buildID = ''left-pad@1.3.0/es2019/left-pad'', importMeta = left_pad_meta,
                single = True\<rparr>) \<and>
   map fst left_pad_meta = [''left-pad''] \<and>
   map ImportPath (packages left_pad_sub) = [''left-pad/left-pad'']"
  by (simp add: scenario_defs)

subsection \<open>\<^verbatim>\<open>identify\<close> (C9)\<close>

text \<open>
  C9. \<^verbatim>\<open>identify\<close> replaces every byte \<^verbatim>\<open>/\<close>, \<^verbatim>\<open>-\<close>, \<^verbatim>\<open>@\<close> and \<^verbatim>\<open>.\<close> of its input by
  \<^verbatim>\<open>_\<close> and leaves every other byte as it is, and applying it twice gives what applying it
  once gives.
\<close>

theorem C9_identify:
  "identify x =
     map (\<lambda>c. if c \<in> {CHR ''/'', CHR ''-'', CHR ''@'', CHR ''.''} then CHR ''_'' else c) x \<and>
   identify (identify x) = identify x"
  by (auto simp: identify_def identify_loop_map)

subsection \<open>The order of the steps in bundle mode (C10)\<close>



end
